theory Spec2Isabelle
  imports Complex_Main
begin

section \<open>Python values, exceptions and console output\<close>

text \<open>
  The repository is Python. A value is \<open>None\<close>, a boolean, an integer, a float, a
  string, a dict, a list, or a reference to a mutable object of the store (see below).
  Dicts keep their insertion order, so a dict is an association list with distinct keys.
  Message dicts are built once and never mutated afterwards anywhere in the source, so a
  message is a dict value; the objects the source mutates in place or shares (an agent's
  memory list, the sampling-parameter dict, the \<open>World.agents\<close> dict, the instances)
  live in the store and are reached through \<open>PRef\<close>.
\<close>

type_synonym addr = nat

datatype pyval =
    PNone
  | PBool bool
  | PInt int
  | PFloat real
  | PStr string
  | PDict "(string \<times> pyval) list"
  | PList "pyval list"
  | PRef addr

text \<open>
  An exception is its class name and its text \<open>str(e)\<close>. \<open>PyExn\<close> is an exception
  whose class derives from \<open>Exception\<close>, the ones \<open>except Exception\<close> intercepts;
  \<open>PyBaseExn\<close> is one whose class derives from \<open>BaseException\<close> only
  (\<open>SystemExit\<close>, \<open>KeyboardInterrupt\<close>, \<open>GeneratorExit\<close>), which
  \<open>except Exception\<close> lets through.
\<close>

datatype pyexn = PyExn string string | PyBaseExn string string

fun exn_str :: "pyexn \<Rightarrow> string" where
  "exn_str (PyExn cls msg) = msg"
| "exn_str (PyBaseExn cls msg) = msg"

text \<open>
  \<open>print_in_color(text, color, end)\<close> of the absent \<open>util\<close> module is recorded as an
  event: the pieces of the formatted text (literal pieces as \<open>PStr\<close>, interpolated
  values as they are), the colour and the line terminator. \<open>print()\<close> is \<open>PrintLn\<close>,
  and the prompt that \<open>input(prompt)\<close> writes is \<open>Prompt\<close>.
\<close>

datatype event =
    PrintInColor "pyval list" string string
  | PrintLn
  | Prompt string

text \<open>\<open>d[k] = v\<close> on a dict: replace in place, or append a new key at the end.\<close>

fun dict_set :: "(string \<times> 'v) list \<Rightarrow> string \<Rightarrow> 'v \<Rightarrow> (string \<times> 'v) list" where
  "dict_set [] k v = [(k, v)]"
| "dict_set ((k', v') # d) k v =
     (if k' = k then (k', v) # d else (k', v') # dict_set d k v)"

definition nl2 :: string where
  "nl2 = [CHR 0x0A, CHR 0x0A]"


section \<open>The streaming chat-completion wrapper (agent.py, stream_chat_completion)\<close>

text \<open>
  A delta is a dict with the optional keys \<open>role\<close>, \<open>function_call\<close> and \<open>content\<close>.
  \<open>d_content\<close> is \<open>None\<close> when the key is absent, \<open>Some None\<close> when its value is
  Python's \<open>None\<close>, \<open>Some (Some t)\<close> for a text. The items of a function-call delta are
  texts. A chunk is the list \<open>chunk['choices']\<close> of its choices' deltas; the response
  is the list of the chunks the service streams.
\<close>

record delta =
  d_role :: "string option"
  d_function_call :: "(string \<times> string) list option"
  d_content :: "string option option"

type_synonym chunk = "delta list"

record acc =
  a_role :: string
  a_content :: string
  a_function_call :: "(string \<times> string) list"
  a_out :: "event list"

text \<open>
  \<^verbatim>\<open>if key not in function_call: function_call[key] = val
  else: function_call[key] += val\<close>
\<close>

definition fc_item :: "(string \<times> string) list \<Rightarrow> string \<times> string \<Rightarrow> (string \<times> string) list" where
  "fc_item fc kv =
     (case map_of fc (fst kv) of
        None \<Rightarrow> dict_set fc (fst kv) (snd kv)
      | Some old \<Rightarrow> dict_set fc (fst kv) (old @ snd kv))"

text \<open>The body of the inner loop \<open>for c in chunk['choices']\<close>, for one delta.\<close>

definition stream_delta :: "bool \<Rightarrow> acc \<Rightarrow> delta \<Rightarrow> acc" where
  "stream_delta print_output a d =
     (let a1 = (case d_role d of None \<Rightarrow> a | Some r \<Rightarrow> a\<lparr>a_role := r\<rparr>);
          a2 = (case d_function_call d of
                  None \<Rightarrow> a1
                | Some items \<Rightarrow> a1\<lparr>a_function_call := foldl fc_item (a_function_call a1) items\<rparr>)
      in case d_content d of
           None \<Rightarrow> a2
         | Some c \<Rightarrow>
             if (length (a_content a2) = 0 \<and> c = Some nl2) \<or> c = None then a2
             else (case c of
                     None \<Rightarrow> a2
                   | Some t \<Rightarrow>
                       a2\<lparr>a_content := a_content a2 @ t,
                          a_out := a_out a2 @
                            (if print_output then [PrintInColor [PStr t] ''yellow'' ''''] else [])\<rparr>))"

definition acc0 :: acc where
  "acc0 = \<lparr>a_role = '''', a_content = '''', a_function_call = [], a_out = []\<rparr>"

text \<open>The two nested loops over the response, from the empty accumulators.\<close>

definition stream_loop :: "bool \<Rightarrow> chunk list \<Rightarrow> acc" where
  "stream_loop print_output resp =
     foldl (\<lambda>a chunk. foldl (stream_delta print_output) a chunk) acc0 resp"

text \<open>The message built after the loop; \<open>function_call\<close> is set only when non-empty.\<close>

definition stream_message :: "acc \<Rightarrow> (string \<times> pyval) list" where
  "stream_message a =
     [(''role'', PStr (a_role a)), (''content'', PStr (a_content a))] @
     (if length (a_function_call a) > 0
      then [(''function_call'', PDict (map (\<lambda>kv. (fst kv, PStr (snd kv))) (a_function_call a)))]
      else [])"

text \<open>What the console shows: the echoed fragments, then one newline if there was content.\<close>

definition stream_out :: "bool \<Rightarrow> acc \<Rightarrow> event list" where
  "stream_out print_output a =
     a_out a @ (if length (a_content a) > 0 \<and> print_output then [PrintLn] else [])"

text \<open>
  The fold of a received response into one message: \<open>stream_chat_completion\<close> after
  the request has been answered with the chunks \<open>resp\<close>.
\<close>

definition stream_fold :: "bool \<Rightarrow> chunk list \<Rightarrow> (string \<times> pyval) list" where
  "stream_fold print_output resp = stream_message (stream_loop print_output resp)"

subsection \<open>The accumulation as the specification words it\<close>

text \<open>
  The content fields of all deltas, in order of arrival, and the fragments a
  function-call key receives, in order of arrival.
\<close>

definition content_fields :: "chunk list \<Rightarrow> string option option list" where
  "content_fields resp = map d_content (concat resp)"

definition fc_fragments :: "string \<Rightarrow> chunk list \<Rightarrow> string list" where
  "fc_fragments k resp =
     map snd (filter (\<lambda>kv. fst kv = k)
       (concat (map (\<lambda>d. case d_function_call d of None \<Rightarrow> [] | Some items \<Rightarrow> items)
          (concat resp))))"

text \<open>
  The specification's rule for content: an absent or empty fragment is skipped, a
  two-newline fragment is dropped when nothing has been accumulated yet, every other
  fragment is appended.
\<close>

fun spec_content :: "string \<Rightarrow> string option option list \<Rightarrow> string" where
  "spec_content c [] = c"
| "spec_content c (None # fs) = spec_content c fs"
| "spec_content c (Some None # fs) = spec_content c fs"
| "spec_content c (Some (Some t) # fs) =
     (if t = '''' then spec_content c fs
      else if t = nl2 \<and> c = '''' then spec_content c fs
      else spec_content (c @ t) fs)"

text \<open>Reading \<open>message['function_call'][k]\<close> and \<open>message['content']\<close>.\<close>

definition msg_function_call :: "(string \<times> pyval) list \<Rightarrow> string \<Rightarrow> pyval option" where
  "msg_function_call m k =
     (case map_of m ''function_call'' of
        Some (PDict fc) \<Rightarrow> map_of fc k
      | _ \<Rightarrow> None)"

text \<open>The texts among the content fields: the fragments that are present and not \<open>None\<close>.\<close>

definition texts :: "string option option list \<Rightarrow> string list" where
  "texts fs = concat (map (\<lambda>f. case f of Some (Some t) \<Rightarrow> [t] | _ \<Rightarrow> []) fs)"

definition frags :: "string \<Rightarrow> (string \<times> string) list \<Rightarrow> string list" where
  "frags k items = map snd (filter (\<lambda>kv. fst kv = k) items)"

definition d_items :: "delta \<Rightarrow> (string \<times> string) list" where
  "d_items d = (case d_function_call d of None \<Rightarrow> [] | Some items \<Rightarrow> items)"

subsection \<open>Proofs about the accumulation\<close>

lemma foldl_foldl_concat:
  "foldl (\<lambda>a xs. foldl f a xs) a xss = foldl f a (concat xss)"
  by (induction xss arbitrary: a) auto

lemma stream_loop_concat:
  "stream_loop p resp = foldl (stream_delta p) acc0 (concat resp)"
  by (simp add: stream_loop_def foldl_foldl_concat)

lemma stream_delta_content:
  "a_content (stream_delta p a d) = spec_content (a_content a) [d_content d]"
  by (cases "d_content d")
     (auto simp: stream_delta_def Let_def split: option.splits)

lemma spec_content_append:
  "spec_content c (fs @ gs) = spec_content (spec_content c fs) gs"
  by (induction c fs rule: spec_content.induct) auto

lemma foldl_stream_delta_content:
  "a_content (foldl (stream_delta p) a ds) = spec_content (a_content a) (map d_content ds)"
proof (induction ds arbitrary: a)
  case Nil
  show ?case by simp
next
  case (Cons d ds)
  have "spec_content (a_content a) (d_content d # map d_content ds)
        = spec_content (spec_content (a_content a) [d_content d]) (map d_content ds)"
    using spec_content_append [of "a_content a" "[d_content d]" "map d_content ds"] by simp
  with Cons show ?case by (simp add: stream_delta_content)
qed

lemma spec_content_nonempty:
  "c \<noteq> [] \<Longrightarrow> spec_content c fs = c @ concat (texts fs)"
  by (induction c fs rule: spec_content.induct) (auto simp: texts_def)

lemma spec_content_empty:
  "spec_content [] fs = concat (dropWhile (\<lambda>t. t = [] \<or> t = nl2) (texts fs))"
proof (induction fs)
  case Nil
  show ?case by (simp add: texts_def)
next
  case (Cons f fs)
  show ?case
  proof (cases f)
    case None
    with Cons show ?thesis by (simp add: texts_def)
  next
    case (Some g)
    show ?thesis
    proof (cases g)
      case None
      with Some Cons show ?thesis by (simp add: texts_def)
    next
      case (Some t)
      with \<open>f = Some g\<close> Cons show ?thesis
        using spec_content_nonempty [of t fs]
        by (auto simp: texts_def)
    qed
  qed
qed

lemma map_of_dict_set:
  "map_of (dict_set d k v) = (map_of d)(k \<mapsto> v)"
  by (induction d) (auto simp: fun_eq_iff)

lemma map_of_fc_item:
  "map_of (fc_item fc kv) k =
     (if k = fst kv
      then Some ((case map_of fc k of None \<Rightarrow> [] | Some old \<Rightarrow> old) @ snd kv)
      else map_of fc k)"
  by (auto simp: fc_item_def map_of_dict_set split: option.splits)

lemma map_of_foldl_fc_item:
  "map_of (foldl fc_item fc items) k =
     (if frags k items = [] then map_of fc k
      else Some ((case map_of fc k of None \<Rightarrow> [] | Some old \<Rightarrow> old) @ concat (frags k items)))"
  by (induction items arbitrary: fc) (auto simp: frags_def map_of_fc_item split: option.splits)

lemma stream_delta_fc:
  "a_function_call (stream_delta p a d) = foldl fc_item (a_function_call a) (d_items d)"
  by (auto simp: stream_delta_def Let_def d_items_def split: option.splits)

lemma foldl_stream_delta_fc:
  "a_function_call (foldl (stream_delta p) a ds)
     = foldl fc_item (a_function_call a) (concat (map d_items ds))"
  by (induction ds arbitrary: a) (auto simp: stream_delta_fc)

lemma map_of_map_PStr:
  "map_of (map (\<lambda>kv. (fst kv, PStr (snd kv))) fc) k = map_option PStr (map_of fc k)"
  by (induction fc) auto

lemma msg_function_call_stream_message:
  "msg_function_call (stream_message a) k = map_option PStr (map_of (a_function_call a) k)"
  by (cases "a_function_call a")
     (simp_all add: msg_function_call_def stream_message_def map_of_map_PStr)

text \<open>
  Claim C7. For every response (every list of chunks, each a list of deltas), the
  message \<open>stream_chat_completion\<close> returns has as content the fragments folded by the
  specification's rule; that is the in-order concatenation of the texts once the leading
  run of empty and two-newline fragments (the ones arriving while nothing has been
  accumulated) is dropped, a two-newline fragment after accumulated content being kept.
  Every field \<open>k\<close> of its function call (\<open>name\<close>, \<open>arguments\<close>, any other key) is the
  in-order concatenation of the fragments the deltas carry for \<open>k\<close>, and is absent when
  no delta carries one.
\<close>

theorem stream_chat_completion_accumulates:
  "map_of (stream_fold p resp) ''content''
      = Some (PStr (spec_content '''' (content_fields resp)))
   \<and> spec_content '''' (content_fields resp)
      = concat (dropWhile (\<lambda>t. t = '''' \<or> t = nl2) (texts (content_fields resp)))
   \<and> msg_function_call (stream_fold p resp) k
      = (if fc_fragments k resp = [] then None else Some (PStr (concat (fc_fragments k resp))))"
proof -
  have c: "a_content (stream_loop p resp) = spec_content '''' (content_fields resp)"
    by (simp add: stream_loop_concat foldl_stream_delta_content content_fields_def acc0_def)
  have f: "fc_fragments k resp = frags k (concat (map d_items (concat resp)))"
    by (simp add: fc_fragments_def frags_def d_items_def [abs_def])
  have "map_of (a_function_call (stream_loop p resp)) k
      = (if fc_fragments k resp = [] then None else Some (concat (fc_fragments k resp)))"
    by (simp add: stream_loop_concat foldl_stream_delta_fc map_of_foldl_fc_item f acc0_def)
  then have g: "msg_function_call (stream_fold p resp) k
      = (if fc_fragments k resp = [] then None else Some (PStr (concat (fc_fragments k resp))))"
    by (simp add: stream_fold_def msg_function_call_stream_message)
  have "map_of (stream_fold p resp) ''content'' = Some (PStr (a_content (stream_loop p resp)))"
    by (simp add: stream_fold_def stream_message_def)
  with c g show ?thesis by (simp add: spec_content_empty)
qed

section \<open>Text helpers (Python's str methods)\<close>

text \<open>
  Strings are lists of characters, a character being a code point below 256.
  \<open>str.strip()\<close> removes the whitespace characters at both ends; below 256 these are
  tab, line feed, vertical tab, form feed, carriage return, the four separators 0x1C to
  0x1F, the space, the next-line character 0x85 and the no-break space 0xA0.
\<close>

definition is_space :: "char \<Rightarrow> bool" where
  "is_space c = (c \<in> set [CHR 0x09, CHR 0x0A, CHR 0x0B, CHR 0x0C, CHR 0x0D,
                            CHR 0x1C, CHR 0x1D, CHR 0x1E, CHR 0x1F, CHR 0x20,
                            CHR 0x85, CHR 0xA0])"

definition strip :: "string \<Rightarrow> string" where
  "strip s = rev (dropWhile is_space (rev (dropWhile is_space s)))"

text \<open>\<open>s.startswith(p)\<close>.\<close>

fun startswith :: "string \<Rightarrow> string \<Rightarrow> bool" where
  "startswith s [] = True"
| "startswith [] (p # ps) = False"
| "startswith (c # s) (p # ps) = (c = p \<and> startswith s ps)"

text \<open>\<open>sep in s\<close> and \<open>s.split(sep)[0]\<close>, for a non-empty separator.\<close>

fun contains :: "string \<Rightarrow> string \<Rightarrow> bool" where
  "contains [] sep = (sep = [])"
| "contains (c # s) sep = (startswith (c # s) sep \<or> contains s sep)"

fun before_first :: "string \<Rightarrow> string \<Rightarrow> string" where
  "before_first [] sep = []"
| "before_first (c # s) sep = (if startswith (c # s) sep then [] else c # before_first s sep)"

text \<open>\<open>s.split('\n')\<close> and \<open>'\n'.join(lines)\<close>.\<close>

fun split_lines :: "string \<Rightarrow> string list" where
  "split_lines [] = [[]]"
| "split_lines (c # s) =
     (if c = CHR 0x0A then [] # split_lines s
      else (case split_lines s of [] \<Rightarrow> [[c]] | l # ls \<Rightarrow> (c # l) # ls))"

fun join_lines :: "string list \<Rightarrow> string" where
  "join_lines [] = []"
| "join_lines [l] = l"
| "join_lines (l # l' # ls) = l @ [CHR 0x0A] @ join_lines (l' # ls)"

text \<open>
  \<open>re.search(name + ':(.*)', doc)\<close> for a parameter name (an identifier, so free of
  regular-expression operators): the leftmost occurrence of \<open>name:\<close>, and as group 1 the
  rest of that line.
\<close>

fun search_group :: "string \<Rightarrow> string \<Rightarrow> string option" where
  "search_group [] pat = (if pat = [] then Some [] else None)"
| "search_group (c # s) pat =
     (if startswith (c # s) pat
      then Some (takeWhile (\<lambda>x. x \<noteq> CHR 0x0A) (drop (length pat) (c # s)))
      else search_group s pat)"


section \<open>The callable-function registry and its decorator (agent.py, agent_callable)\<close>

definition WORLD_PARAM_NAME :: string where
  "WORLD_PARAM_NAME = ''self''"

definition AGENT_PARAM_NAME :: string where
  "AGENT_PARAM_NAME = ''agent''"

definition AGENT_NAME_PARAM_NAME :: string where
  "AGENT_NAME_PARAM_NAME = ''agent_name''"

text \<open>
  What \<open>inspect.signature\<close> gives for one parameter: its name, its annotation and its
  default (\<open>None\<close> is \<open>inspect.Parameter.empty\<close>). An annotation is
  \<open>inspect.Parameter.empty\<close> (\<open>AEmpty\<close>), one of the four types the decorator knows,
  any other hashable object (\<open>AOther\<close>: a class, a string, a \<open>typing\<close> alias), or an
  object that cannot be hashed (\<open>AUnhashable\<close> with the name of its type: a list or dict
  display such as \<open>[int]\<close>). The annotation is the object the signature holds: in a
  module that postpones the evaluation of annotations it is the text of the annotation,
  a string, hence \<open>AOther\<close>. A function is its name, its docstring, its parameters in
  declaration order, and the callable itself, of a type \<open>'f\<close> fixed further down.
\<close>

datatype annotation = AEmpty | AStr | AInt | AFloat | ABool | AOther string | AUnhashable string

record parameter =
  p_name :: string
  p_annotation :: annotation
  p_default :: "pyval option"

record 'f pyfunction =
  f_name :: string
  f_doc :: "string option"
  f_parameters :: "parameter list"
  f_callable :: 'f

record property =
  prop_type :: string
  prop_description :: string

record func_sig =
  sig_name :: string
  sig_description :: string
  sig_properties :: "(string \<times> property) list"
  sig_required :: "string list"

record 'f function_info =
  fi_sig :: func_sig
  fi_function :: 'f
  has_world_param :: bool
  has_agent_param :: bool
  has_agent_name_param :: bool
  role_name_filter :: string

type_synonym 'f function_table = "(string \<times> 'f function_info) list"

definition reserved_names :: "string list" where
  "reserved_names = [WORLD_PARAM_NAME, AGENT_PARAM_NAME, AGENT_NAME_PARAM_NAME]"

definition parameters_clean :: "parameter list \<Rightarrow> parameter list" where
  "parameters_clean ps = filter (\<lambda>p. p_name p \<notin> set reserved_names) ps"

text \<open>The loop that collects \<open>required_parameters\<close>.\<close>

definition required_parameters :: "parameter list \<Rightarrow> string list" where
  "required_parameters ps =
     foldl (\<lambda>req p. if p_default p = None then req @ [p_name p] else req) []
       (parameters_clean ps)"

text \<open>The dict \<open>type_annotation_to_json_schema_type\<close>, as its lookup.\<close>

fun type_annotation_to_json_schema_type :: "annotation \<Rightarrow> string option" where
  "type_annotation_to_json_schema_type AStr = Some ''string''"
| "type_annotation_to_json_schema_type AInt = Some ''integer''"
| "type_annotation_to_json_schema_type AFloat = Some ''number''"
| "type_annotation_to_json_schema_type ABool = Some ''boolean''"
| "type_annotation_to_json_schema_type _ = None"

text \<open>
  A dict lookup hashes its key first: \<open>d.get(k, default)\<close> raises \<open>TypeError\<close> for a key
  that cannot be hashed, whatever the default.
\<close>

fun unhashable :: "annotation \<Rightarrow> string option" where
  "unhashable (AUnhashable t) = Some t"
| "unhashable _ = None"

definition unhashable_type :: "string \<Rightarrow> pyexn" where
  "unhashable_type t = PyExn ''TypeError'' (''unhashable type: '' @ [CHR 0x27] @ t @ [CHR 0x27])"

text \<open>
  The loop that fills \<open>json_schema_types\<close>; it raises at the first annotated parameter
  whose annotation cannot be hashed. Then \<open>d.get(k, default)\<close> on a string key.
\<close>

fun json_schema_loop ::
  "(string \<times> string) list \<Rightarrow> parameter list \<Rightarrow> pyexn + (string \<times> string) list" where
  "json_schema_loop d [] = Inr d"
| "json_schema_loop d (p # ps) =
     (if p_annotation p \<noteq> AEmpty
      then (case unhashable (p_annotation p) of
              Some t \<Rightarrow> Inl (unhashable_type t)
            | None \<Rightarrow>
                json_schema_loop
                  (dict_set d (p_name p)
                     (case type_annotation_to_json_schema_type (p_annotation p) of
                        None \<Rightarrow> ''string'' | Some t \<Rightarrow> t)) ps)
      else json_schema_loop d ps)"

definition json_schema_types :: "parameter list \<Rightarrow> pyexn + (string \<times> string) list" where
  "json_schema_types ps = json_schema_loop [] (parameters_clean ps)"

definition dict_get :: "(string \<times> 'v) list \<Rightarrow> string \<Rightarrow> 'v \<Rightarrow> 'v" where
  "dict_get d k dflt = (case map_of d k of None \<Rightarrow> dflt | Some v \<Rightarrow> v)"

definition parameter_descriptions :: "string \<Rightarrow> parameter list \<Rightarrow> (string \<times> string) list" where
  "parameter_descriptions doc ps =
     foldl (\<lambda>d p. case search_group doc (p_name p @ '':'') of
                     None \<Rightarrow> d
                   | Some g \<Rightarrow> dict_set d (p_name p) (strip g)) []
       (parameters_clean ps)"

definition function_description :: "string \<Rightarrow> string" where
  "function_description doc =
     (let d = (if contains doc ''Args:'' then strip (before_first doc ''Args:'')
               else if contains doc ''Returns:'' then strip (before_first doc ''Returns:'')
               else strip doc)
      in join_lines (map strip (filter (\<lambda>line. length (strip line) > 0) (split_lines d))))"

text \<open>
  \<open>agent_callable(role_name_filter)(function)\<close>: the new registry, or the exception the
  call raises, which leaves the registry as it was. The properties are built over
  \<open>parameters_clean\<close>, in order; a later parameter of the same name replaces the entry of
  an earlier one, as in a dict comprehension.
\<close>

definition agent_callable ::
  "string \<Rightarrow> 'f pyfunction \<Rightarrow> 'f function_table \<Rightarrow> pyexn + 'f function_table" where
  "agent_callable filter_pattern f table =
     (let parameters = f_parameters f
      in case json_schema_types parameters of
           Inl e \<Rightarrow> Inl e
         | Inr types \<Rightarrow>
            (let doc = (case f_doc f of None \<Rightarrow> '''' | Some d \<Rightarrow> d);
                 func_sig = \<lparr>
                   sig_name = f_name f,
                   sig_description = function_description doc,
                   sig_properties =
                     foldl (\<lambda>d p. dict_set d (p_name p)
                              \<lparr>prop_type = dict_get types (p_name p) ''string'',
                               prop_description =
                                 dict_get (parameter_descriptions doc parameters) (p_name p) ''''\<rparr>)
                       [] (parameters_clean parameters),
                   sig_required = required_parameters parameters\<rparr>
             in Inr (dict_set table (f_name f)
                  \<lparr>fi_sig = func_sig,
                   fi_function = f_callable f,
                   has_world_param = (WORLD_PARAM_NAME \<in> set (map p_name parameters)),
                   has_agent_param = (AGENT_PARAM_NAME \<in> set (map p_name parameters)),
                   has_agent_name_param = (AGENT_NAME_PARAM_NAME \<in> set (map p_name parameters)),
                   role_name_filter = filter_pattern\<rparr>)))"

text \<open>The JSON type the specification gives for an annotation.\<close>

fun spec_json_type :: "annotation \<Rightarrow> string" where
  "spec_json_type AStr = ''string''"
| "spec_json_type AInt = ''integer''"
| "spec_json_type AFloat = ''number''"
| "spec_json_type ABool = ''boolean''"
| "spec_json_type (AOther other) = ''string''"
| "spec_json_type (AUnhashable t) = ''string''"
| "spec_json_type AEmpty = ''string''"

text \<open>
  The entry a registration leaves in the registry under the function's name; none when
  the registration raised.
\<close>

definition registered_sig :: "string \<Rightarrow> 'f pyfunction \<Rightarrow> 'f function_table \<Rightarrow> func_sig option" where
  "registered_sig filter_pattern f table =
     (case agent_callable filter_pattern f table of
        Inl e \<Rightarrow> None
      | Inr table' \<Rightarrow> map_option fi_sig (map_of table' (f_name f)))"

subsection \<open>Proofs about the generated schema\<close>

lemma foldl_required:
  "foldl (\<lambda>req p. if p_default p = None then req @ [p_name p] else req) acc ps
     = acc @ map p_name (filter (\<lambda>p. p_default p = None) ps)"
  by (induction ps arbitrary: acc) auto

lemma required_parameters_eq:
  "required_parameters ps
     = map p_name (filter (\<lambda>p. p_name p \<notin> set reserved_names \<and> p_default p = None) ps)"
  by (simp add: required_parameters_def parameters_clean_def foldl_required conj_commute)

definition schema_step :: "(string \<times> string) list \<Rightarrow> parameter \<Rightarrow> (string \<times> string) list" where
  "schema_step d p =
     (if p_annotation p \<noteq> AEmpty
      then dict_set d (p_name p)
             (case type_annotation_to_json_schema_type (p_annotation p) of
                None \<Rightarrow> ''string'' | Some t \<Rightarrow> t)
      else d)"

lemma json_schema_loop_hashable:
  "\<forall>p \<in> set ps. unhashable (p_annotation p) = None \<Longrightarrow>
   json_schema_loop d ps = Inr (foldl schema_step d ps)"
  by (induction ps arbitrary: d) (simp_all add: schema_step_def)

lemma json_schema_loop_unhashable:
  "\<not> (\<forall>p \<in> set ps. unhashable (p_annotation p) = None) \<Longrightarrow>
   \<exists>p \<in> set ps. \<exists>t. p_annotation p = AUnhashable t \<and> json_schema_loop d ps = Inl (unhashable_type t)"
proof (induction ps arbitrary: d)
  case Nil
  then show ?case by simp
next
  case (Cons q qs)
  show ?case
  proof (cases "unhashable (p_annotation q)")
    case None
    with Cons.prems have "\<not> (\<forall>p \<in> set qs. unhashable (p_annotation p) = None)" by simp
    from Cons.IH [OF this] None show ?thesis by (cases "p_annotation q = AEmpty") auto
  next
    case (Some t)
    then have "p_annotation q = AUnhashable t" by (cases "p_annotation q") simp_all
    then show ?thesis by simp
  qed
qed

lemma json_type_cases:
  "(case type_annotation_to_json_schema_type a of None \<Rightarrow> ''string'' | Some t \<Rightarrow> t)
     = spec_json_type a"
  by (cases a) simp_all

lemma foldl_schema_other:
  "p_name p \<notin> set (map p_name ps) \<Longrightarrow>
   map_of (foldl schema_step d ps) (p_name p) = map_of d (p_name p)"
  by (induction ps arbitrary: d) (auto simp: schema_step_def map_of_dict_set)

lemma foldl_schema_types:
  "distinct (map p_name ps) \<Longrightarrow> p \<in> set ps \<Longrightarrow> map_of d (p_name p) = None \<Longrightarrow>
   dict_get (foldl schema_step d ps) (p_name p) ''string'' = spec_json_type (p_annotation p)"
proof (induction ps arbitrary: d)
  case Nil
  then show ?case by simp
next
  case (Cons q qs)
  show ?case
  proof (cases "p = q")
    case True
    with Cons.prems have "p_name p \<notin> set (map p_name qs)" by auto
    then have "map_of (foldl schema_step (schema_step d q) qs) (p_name p)
                 = map_of (schema_step d q) (p_name p)"
      by (rule foldl_schema_other)
    moreover have "map_of (schema_step d q) (p_name q)
                 = (if p_annotation q = AEmpty then None else Some (spec_json_type (p_annotation q)))"
      using True Cons.prems(3) by (simp add: schema_step_def map_of_dict_set json_type_cases)
    ultimately have "map_of (foldl schema_step (schema_step d q) qs) (p_name q)
                 = (if p_annotation q = AEmpty then None else Some (spec_json_type (p_annotation q)))"
      using True by simp
    then have "dict_get (foldl schema_step (schema_step d q) qs) (p_name q) ''string''
                 = spec_json_type (p_annotation q)"
      by (simp add: dict_get_def)
    with True show ?thesis by simp
  next
    case False
    with Cons.prems have in_qs: "p \<in> set qs" and ne: "p_name q \<noteq> p_name p"
      by (auto simp: image_iff)
    from ne Cons.prems(3) have "map_of (schema_step d q) (p_name p) = None"
      by (simp add: schema_step_def map_of_dict_set)
    with Cons.IH [of "schema_step d q"] Cons.prems(1) in_qs show ?thesis by simp
  qed
qed
lemma json_schema_types_get:
  assumes "distinct (map p_name ps)" and "p \<in> set ps" and "p_name p \<notin> set reserved_names"
    and "json_schema_types ps = Inr types"
  shows "dict_get types (p_name p) ''string'' = spec_json_type (p_annotation p)"
proof -
  have d: "distinct (map p_name (parameters_clean ps))"
    using assms(1) by (simp add: parameters_clean_def distinct_map_filter)
  have m: "p \<in> set (parameters_clean ps)"
    using assms(2,3) by (simp add: parameters_clean_def)
  have h: "\<forall>p \<in> set (parameters_clean ps). unhashable (p_annotation p) = None"
  proof (rule ccontr)
    assume "\<not> (\<forall>p \<in> set (parameters_clean ps). unhashable (p_annotation p) = None)"
    from json_schema_loop_unhashable [OF this, of "[]"] assms(4) show False
      by (auto simp: json_schema_types_def)
  qed
  have "types = foldl schema_step [] (parameters_clean ps)"
    using json_schema_loop_hashable [OF h, of "[]"] assms(4) by (simp add: json_schema_types_def)
  with foldl_schema_types [OF d m, of "[]"] show ?thesis by simp
qed

lemma map_of_foldl_dict_set:
  "distinct (map p_name ps) \<Longrightarrow> p \<in> set ps \<Longrightarrow>
   map_of (foldl (\<lambda>d q. dict_set d (p_name q) (g q)) d0 ps) (p_name p) = Some (g p)"
proof (induction ps arbitrary: d0)
  case Nil
  then show ?case by simp
next
  case (Cons q qs)
  have other: "\<And>d. p_name p \<notin> set (map p_name qs) \<Longrightarrow>
      map_of (foldl (\<lambda>d q. dict_set d (p_name q) (g q)) d qs) (p_name p) = map_of d (p_name p)"
  proof -
    fix d
    show "p_name p \<notin> set (map p_name qs) \<Longrightarrow>
      map_of (foldl (\<lambda>d q. dict_set d (p_name q) (g q)) d qs) (p_name p) = map_of d (p_name p)"
      by (induction qs arbitrary: d) (auto simp: map_of_dict_set)
  qed
  show ?case
  proof (cases "p = q")
    case True
    with Cons.prems have "p_name p \<notin> set (map p_name qs)" by auto
    with other [of "dict_set d0 (p_name q) (g q)"] True show ?thesis
      by (simp add: map_of_dict_set)
  next
    case False
    with Cons.prems have "p \<in> set qs" by auto
    with Cons.IH Cons.prems(1) show ?thesis by simp
  qed
qed

lemma keys_dict_set:
  "map fst (dict_set d k v) = (if k \<in> set (map fst d) then map fst d else map fst d @ [k])"
proof (induction d)
  case Nil
  show ?case by simp
next
  case (Cons x d)
  then show ?case by (cases x) force
qed

lemma keys_foldl_dict_set:
  "distinct (map p_name ps) \<Longrightarrow> set (map fst d0) \<inter> set (map p_name ps) = {} \<Longrightarrow>
   map fst (foldl (\<lambda>d q. dict_set d (p_name q) (g q)) d0 ps) = map fst d0 @ map p_name ps"
proof (induction ps arbitrary: d0)
  case Nil
  then show ?case by simp
next
  case (Cons q qs)
  have k: "map fst (dict_set d0 (p_name q) (g q)) = map fst d0 @ [p_name q]"
    using Cons.prems(2) by (auto simp: keys_dict_set)
  have "set (map fst (dict_set d0 (p_name q) (g q))) \<inter> set (map p_name qs) = {}"
    using Cons.prems by (auto simp: k)
  with Cons.IH [of "dict_set d0 (p_name q) (g q)"] Cons.prems(1) k show ?case by simp
qed
text \<open>
  Claim C8. The decorator registers a function (its parameter names distinct, as Python
  requires of a signature) exactly when no non-reserved parameter carries an annotation
  that cannot be hashed. For every function so registered, the schema stored under the
  function's name has as required list exactly the non-reserved parameters without a
  default, in declaration order; its properties are exactly the non-reserved parameters;
  and the JSON type of each is "string" for \<open>str\<close>, "integer" for \<open>int\<close>, "number" for
  \<open>float\<close>, "boolean" for \<open>bool\<close>, and "string" for any other or absent annotation.
  A function with an unhashable annotation is not registered: the decorator raises
  \<open>TypeError\<close> at the first such parameter.
\<close>

theorem agent_callable_schema:
  assumes "distinct (map p_name (f_parameters f))"
  shows "if \<forall>p \<in> set (parameters_clean (f_parameters f)). unhashable (p_annotation p) = None
         then \<exists>table' sg. agent_callable pat f table = Inr table'
               \<and> registered_sig pat f table = Some sg
               \<and> map_option fi_sig (map_of table' (f_name f)) = Some sg
               \<and> sig_required sg
                   = map p_name (filter (\<lambda>p. p_name p \<notin> set reserved_names \<and> p_default p = None)
                       (f_parameters f))
               \<and> map fst (sig_properties sg)
                   = map p_name (filter (\<lambda>p. p_name p \<notin> set reserved_names) (f_parameters f))
               \<and> (\<forall>p \<in> set (f_parameters f). p_name p \<notin> set reserved_names \<longrightarrow>
                     map_option prop_type (map_of (sig_properties sg) (p_name p))
                       = Some (spec_json_type (p_annotation p)))
         else registered_sig pat f table = None
               \<and> (\<exists>p \<in> set (parameters_clean (f_parameters f)). \<exists>t.
                     p_annotation p = AUnhashable t
                     \<and> agent_callable pat f table = Inl (unhashable_type t))"
proof (cases "\<forall>p \<in> set (parameters_clean (f_parameters f)). unhashable (p_annotation p) = None")
  case False
  from json_schema_loop_unhashable [OF False, of "[]"]
  obtain p t where p: "p \<in> set (parameters_clean (f_parameters f))"
    and a: "p_annotation p = AUnhashable t"
    and l: "json_schema_types (f_parameters f) = Inl (unhashable_type t)"
    by (auto simp: json_schema_types_def)
  have ac: "agent_callable pat f table = Inl (unhashable_type t)"
    by (simp add: agent_callable_def Let_def l)
  then have "registered_sig pat f table = None"
    by (simp add: registered_sig_def)
  with False p a ac show ?thesis by auto
next
  case True
  let ?ps = "f_parameters f"
  let ?doc = "case f_doc f of None \<Rightarrow> '''' | Some d \<Rightarrow> d"
  let ?types = "foldl schema_step [] (parameters_clean ?ps)"
  let ?g = "\<lambda>p. \<lparr>prop_type = dict_get ?types (p_name p) ''string'',
                 prop_description = dict_get (parameter_descriptions ?doc ?ps) (p_name p) ''''\<rparr>"
  let ?props = "foldl (\<lambda>d p. dict_set d (p_name p) (?g p)) [] (parameters_clean ?ps)"
  let ?sg = "\<lparr>sig_name = f_name f, sig_description = function_description ?doc,
              sig_properties = ?props, sig_required = required_parameters ?ps\<rparr>"
  let ?fi = "\<lparr>fi_sig = ?sg,
              fi_function = f_callable f,
              has_world_param = (WORLD_PARAM_NAME \<in> set (map p_name ?ps)),
              has_agent_param = (AGENT_PARAM_NAME \<in> set (map p_name ?ps)),
              has_agent_name_param = (AGENT_NAME_PARAM_NAME \<in> set (map p_name ?ps)),
              role_name_filter = pat\<rparr>"
  have ty: "json_schema_types ?ps = Inr ?types"
    using json_schema_loop_hashable [OF True, of "[]"] by (simp add: json_schema_types_def)
  have dc: "distinct (map p_name (parameters_clean ?ps))"
    using assms by (simp add: parameters_clean_def distinct_map_filter)
  have ac: "agent_callable pat f table = Inr (dict_set table (f_name f) ?fi)"
    by (simp add: agent_callable_def Let_def ty)
  have tab: "map_option fi_sig (map_of (dict_set table (f_name f) ?fi) (f_name f)) = Some ?sg"
    by (simp add: map_of_dict_set)
  have reg: "registered_sig pat f table = Some ?sg"
    by (simp add: registered_sig_def ac map_of_dict_set)
  have req: "sig_required ?sg
      = map p_name (filter (\<lambda>p. p_name p \<notin> set reserved_names \<and> p_default p = None) ?ps)"
    by (simp add: required_parameters_eq)
  have keys: "map fst (sig_properties ?sg)
      = map p_name (filter (\<lambda>p. p_name p \<notin> set reserved_names) ?ps)"
    using keys_foldl_dict_set [OF dc, of "[]" ?g] by (simp add: parameters_clean_def)
  have types: "\<forall>p \<in> set ?ps. p_name p \<notin> set reserved_names \<longrightarrow>
      map_option prop_type (map_of (sig_properties ?sg) (p_name p))
        = Some (spec_json_type (p_annotation p))"
  proof (intro ballI impI)
    fix p
    assume p: "p \<in> set ?ps" and nr: "p_name p \<notin> set reserved_names"
    then have m: "p \<in> set (parameters_clean ?ps)"
      by (simp add: parameters_clean_def)
    have "map_of ?props (p_name p) = Some (?g p)"
      using map_of_foldl_dict_set [OF dc m, of ?g "[]"] .
    then show "map_option prop_type (map_of (sig_properties ?sg) (p_name p))
        = Some (spec_json_type (p_annotation p))"
      using json_schema_types_get [OF assms p nr ty] by simp
  qed
  have "\<exists>table' sg. agent_callable pat f table = Inr table'
               \<and> registered_sig pat f table = Some sg
               \<and> map_option fi_sig (map_of table' (f_name f)) = Some sg
               \<and> sig_required sg
                   = map p_name (filter (\<lambda>p. p_name p \<notin> set reserved_names \<and> p_default p = None)
                       (f_parameters f))
               \<and> map fst (sig_properties sg)
                   = map p_name (filter (\<lambda>p. p_name p \<notin> set reserved_names) (f_parameters f))
               \<and> (\<forall>p \<in> set (f_parameters f). p_name p \<notin> set reserved_names \<longrightarrow>
                     map_option prop_type (map_of (sig_properties sg) (p_name p))
                       = Some (spec_json_type (p_annotation p)))"
    by (intro exI conjI) (fact ac, fact reg, fact tab, fact req, fact keys, fact types)
  with True show ?thesis by simp
qed

definition example_function :: "unit pyfunction" where
  "example_function =
     \<lparr>f_name = ''lookup'',
      f_doc = Some ''Look something up.'',
      f_parameters =
        [\<lparr>p_name = ''agent'', p_annotation = AOther ''Agent'', p_default = None\<rparr>,
         \<lparr>p_name = ''a'', p_annotation = AStr, p_default = None\<rparr>,
         \<lparr>p_name = ''b'', p_annotation = AInt, p_default = Some (PInt 3)\<rparr>,
         \<lparr>p_name = ''c'', p_annotation = AEmpty, p_default = None\<rparr>,
         \<lparr>p_name = ''d'', p_annotation = AOther ''Fact'', p_default = None\<rparr>],
      f_callable = ()\<rparr>"

text \<open>A function with a parameter annotated \<open>[int]\<close>, after an annotated one.\<close>

definition unhashable_function :: "unit pyfunction" where
  "unhashable_function =
     \<lparr>f_name = ''total'',
      f_doc = None,
      f_parameters =
        [\<lparr>p_name = ''unit'', p_annotation = AStr, p_default = None\<rparr>,
         \<lparr>p_name = ''values'', p_annotation = AUnhashable ''list'', p_default = None\<rparr>],
      f_callable = ()\<rparr>"

theorem agent_callable_schema_witness:
  "distinct (map p_name (f_parameters example_function))
   \<and> (\<exists>sg. registered_sig ''.*'' example_function [] = Some sg
         \<and> sig_required sg = [''a'', ''c'', ''d'']
         \<and> map fst (sig_properties sg) = [''a'', ''b'', ''c'', ''d'']
         \<and> map_option prop_type (map_of (sig_properties sg) ''a'') = Some ''string''
         \<and> map_option prop_type (map_of (sig_properties sg) ''b'') = Some ''integer''
         \<and> map_option prop_type (map_of (sig_properties sg) ''c'') = Some ''string''
         \<and> map_option prop_type (map_of (sig_properties sg) ''d'') = Some ''string'')
   \<and> distinct (map p_name (f_parameters unhashable_function))
   \<and> agent_callable ''.*'' unhashable_function [] = Inl (unhashable_type ''list'')
   \<and> registered_sig ''.*'' unhashable_function [] = None"
proof -
  note names = reserved_names_def WORLD_PARAM_NAME_def AGENT_PARAM_NAME_def
    AGENT_NAME_PARAM_NAME_def
  have d: "distinct (map p_name (f_parameters example_function))"
    by (simp add: example_function_def)
  have h: "\<forall>p \<in> set (parameters_clean (f_parameters example_function)).
             unhashable (p_annotation p) = None"
    by (simp add: example_function_def parameters_clean_def names)
  from agent_callable_schema [OF d, of "''.*''" "[]"]
  obtain sg where sg: "registered_sig ''.*'' example_function [] = Some sg"
    and req: "sig_required sg
               = map p_name (filter (\<lambda>p. p_name p \<notin> set reserved_names \<and> p_default p = None)
                   (f_parameters example_function))"
    and keys: "map fst (sig_properties sg)
               = map p_name (filter (\<lambda>p. p_name p \<notin> set reserved_names)
                   (f_parameters example_function))"
    and types: "\<forall>p \<in> set (f_parameters example_function). p_name p \<notin> set reserved_names \<longrightarrow>
                 map_option prop_type (map_of (sig_properties sg) (p_name p))
                   = Some (spec_json_type (p_annotation p))"
    unfolding if_P [OF h] by blast
  have r: "sig_required sg = [''a'', ''c'', ''d'']"
    using req by (simp add: example_function_def names)
  have k: "map fst (sig_properties sg) = [''a'', ''b'', ''c'', ''d'']"
    using keys by (simp add: example_function_def names)
  have t: "map_option prop_type (map_of (sig_properties sg) ''a'') = Some ''string''
         \<and> map_option prop_type (map_of (sig_properties sg) ''b'') = Some ''integer''
         \<and> map_option prop_type (map_of (sig_properties sg) ''c'') = Some ''string''
         \<and> map_option prop_type (map_of (sig_properties sg) ''d'') = Some ''string''"
    using types by (simp add: example_function_def names)
  have first: "\<exists>sg. registered_sig ''.*'' example_function [] = Some sg
         \<and> sig_required sg = [''a'', ''c'', ''d'']
         \<and> map fst (sig_properties sg) = [''a'', ''b'', ''c'', ''d'']
         \<and> map_option prop_type (map_of (sig_properties sg) ''a'') = Some ''string''
         \<and> map_option prop_type (map_of (sig_properties sg) ''b'') = Some ''integer''
         \<and> map_option prop_type (map_of (sig_properties sg) ''c'') = Some ''string''
         \<and> map_option prop_type (map_of (sig_properties sg) ''d'') = Some ''string''"
    by (rule exI [of _ sg], simp only: sg r k t simp_thms)
  have d2: "distinct (map p_name (f_parameters unhashable_function))"
    by (simp add: unhashable_function_def)
  have h2: "\<not> (\<forall>p \<in> set (parameters_clean (f_parameters unhashable_function)).
             unhashable (p_annotation p) = None)"
    by (simp add: unhashable_function_def parameters_clean_def names)
  from agent_callable_schema [OF d2, of "''.*''" "[]"]
  have none: "registered_sig ''.*'' unhashable_function [] = None"
    and ex: "\<exists>p \<in> set (parameters_clean (f_parameters unhashable_function)). \<exists>t.
               p_annotation p = AUnhashable t
               \<and> agent_callable ''.*'' unhashable_function [] = Inl (unhashable_type t)"
    unfolding if_not_P [OF h2] by simp_all
  from ex have raised: "agent_callable ''.*'' unhashable_function [] = Inl (unhashable_type ''list'')"
    by (auto simp: unhashable_function_def parameters_clean_def names)
  from d first d2 raised none show ?thesis by (intro conjI)
qed

section \<open>The object store\<close>

text \<open>
  The objects the source shares or mutates in place live in a store: list objects, dict
  objects (keyed by any hashable value) and class instances with their \<open>__dict__\<close>.
  Besides the store the state holds the console output so far, the completion requests
  issued to the remote service so far, and the module global \<open>BOTS\<close> of function.py.
\<close>

datatype pyobj =
    OList "pyval list"
  | ODict "(pyval \<times> pyval) list"
  | OInst string "(string \<times> pyval) list"

record request =
  r_model :: pyval
  r_messages :: "pyval list"
  r_functions :: "func_sig list option"
  r_function_call :: "string option"
  r_kwargs :: "(pyval \<times> pyval) list"

record pystate =
  heap :: "addr \<Rightarrow> pyobj option"
  nxt :: addr
  out :: "event list"
  requests :: "request list"
  BOTS :: "(string \<times> pyval \<times> pyval) list"

text \<open>\<open>d[k] = v\<close> on a dict keyed by values.\<close>

fun item_set :: "(pyval \<times> pyval) list \<Rightarrow> pyval \<Rightarrow> pyval \<Rightarrow> (pyval \<times> pyval) list" where
  "item_set [] k v = [(k, v)]"
| "item_set ((k', v') # d) k v =
     (if k' = k then (k', v) # d else (k', v') # item_set d k v)"

text \<open>A new object gets the next free address.\<close>

definition alloc :: "pyobj \<Rightarrow> pystate \<Rightarrow> addr \<times> pystate" where
  "alloc obj s = (nxt s, s\<lparr>heap := (heap s)(nxt s \<mapsto> obj), nxt := Suc (nxt s)\<rparr>)"

definition quoted :: "string \<Rightarrow> string" where
  "quoted t = [CHR 0x27] @ t @ [CHR 0x27]"

definition type_name :: "pystate \<Rightarrow> pyval \<Rightarrow> string" where
  "type_name s v =
     (case v of
        PNone \<Rightarrow> ''NoneType'' | PBool b \<Rightarrow> ''bool'' | PInt i \<Rightarrow> ''int''
      | PFloat x \<Rightarrow> ''float'' | PStr t \<Rightarrow> ''str'' | PDict d \<Rightarrow> ''dict'' | PList l \<Rightarrow> ''list''
      | PRef a \<Rightarrow>
          (case heap s a of
             Some (OList l) \<Rightarrow> ''list'' | Some (ODict d) \<Rightarrow> ''dict''
           | Some (OInst cls d) \<Rightarrow> cls | None \<Rightarrow> ''object''))"

definition AttributeError :: "pystate \<Rightarrow> pyval \<Rightarrow> string \<Rightarrow> pyexn" where
  "AttributeError s v name =
     PyExn ''AttributeError''
       (quoted (type_name s v) @ '' object has no attribute '' @ quoted name)"

definition KeyError :: "string \<Rightarrow> pyexn" where
  "KeyError key = PyExn ''KeyError'' (quoted key)"

definition TypeError :: "string \<Rightarrow> pyexn" where
  "TypeError text = PyExn ''TypeError'' text"

subsection \<open>The class namespaces of agent.py\<close>

text \<open>
  The class bodies of \<open>Agent\<close> and \<open>World\<close> are evaluated once, when the module is
  imported. The mutable defaults they create are three objects of the store:
  \<open>Agent.memory\<close> (the list \<open>[]\<close>), \<open>Agent.engine_args\<close> (the dict
  \<open>dict(temperature=1.0)\<close>) and \<open>World.agents\<close> (the dict \<open>dict()\<close>). Nothing in the
  source rebinds a class attribute, so the class namespaces are constants.
\<close>

definition Agent_memory_addr :: addr where
  "Agent_memory_addr = 0"

definition Agent_engine_args_addr :: addr where
  "Agent_engine_args_addr = 1"

definition World_agents_addr :: addr where
  "World_agents_addr = 2"

definition Agent_class :: "(string \<times> pyval) list" where
  "Agent_class =
     [(''role'', PStr ''agent''),
      (''memory'', PRef Agent_memory_addr),
      (''engine'', PStr ''gpt-3.5-turbo-16k''),
      (''engine_args'', PRef Agent_engine_args_addr),
      (''function_call_repeats'', PInt 1),
      (''ignore_none_function_messages'', PBool True)]"

definition World_class :: "(string \<times> pyval) list" where
  "World_class = [(''agents'', PRef World_agents_addr)]"

definition class_namespace :: "string \<Rightarrow> (string \<times> pyval) list" where
  "class_namespace cls =
     (if cls = ''Agent'' then Agent_class else if cls = ''World'' then World_class else [])"

text \<open>The state once agent.py has been imported.\<close>

definition module_state :: pystate where
  "module_state =
     \<lparr>heap = [Agent_memory_addr \<mapsto> OList [],
              Agent_engine_args_addr \<mapsto> ODict [(PStr ''temperature'', PFloat 1.0)],
              World_agents_addr \<mapsto> ODict []],
      nxt = 3, out = [], requests = [], BOTS = []\<rparr>"

subsection \<open>Attribute access, item access, append\<close>

text \<open>
  \<open>obj.name\<close>: the instance's own \<open>__dict__\<close> first, then the namespace of its class.
\<close>

definition getattr :: "pystate \<Rightarrow> pyval \<Rightarrow> string \<Rightarrow> pyexn + pyval" where
  "getattr s obj name =
     (case obj of
        PRef a \<Rightarrow>
          (case heap s a of
             Some (OInst cls d) \<Rightarrow>
               (case map_of d name of
                  Some v \<Rightarrow> Inr v
                | None \<Rightarrow>
                    (case map_of (class_namespace cls) name of
                       Some v \<Rightarrow> Inr v
                     | None \<Rightarrow> Inl (AttributeError s obj name)))
           | _ \<Rightarrow> Inl (AttributeError s obj name))
      | _ \<Rightarrow> Inl (AttributeError s obj name))"

text \<open>\<open>self.name = v\<close> on the instance at \<open>a\<close>.\<close>

definition setattr :: "addr \<Rightarrow> string \<Rightarrow> pyval \<Rightarrow> pystate \<Rightarrow> pystate" where
  "setattr a name v s =
     (case heap s a of
        Some (OInst cls d) \<Rightarrow> s\<lparr>heap := (heap s)(a \<mapsto> OInst cls (dict_set d name v))\<rparr>
      | _ \<Rightarrow> s)"

text \<open>\<open>obj.append(x)\<close>: only a list has the method.\<close>

definition list_append :: "pyval \<Rightarrow> pyval \<Rightarrow> pystate \<Rightarrow> (pyexn + pyval) \<times> pystate" where
  "list_append obj x s =
     (case obj of
        PRef a \<Rightarrow>
          (case heap s a of
             Some (OList xs) \<Rightarrow> (Inr PNone, s\<lparr>heap := (heap s)(a \<mapsto> OList (xs @ [x]))\<rparr>)
           | _ \<Rightarrow> (Inl (AttributeError s obj ''append''), s))
      | _ \<Rightarrow> (Inl (AttributeError s obj ''append''), s))"

text \<open>A key must be hashable: no dict, no list.\<close>

definition hashable :: "pystate \<Rightarrow> pyval \<Rightarrow> bool" where
  "hashable s k =
     (case k of
        PDict d \<Rightarrow> False
      | PList l \<Rightarrow> False
      | PRef a \<Rightarrow> (case heap s a of Some (OInst cls d) \<Rightarrow> True | _ \<Rightarrow> False)
      | _ \<Rightarrow> True)"

text \<open>\<open>obj[k] = v\<close> and \<open>obj[k]\<close> on a dict object of the store.\<close>

definition setitem :: "pyval \<Rightarrow> pyval \<Rightarrow> pyval \<Rightarrow> pystate \<Rightarrow> (pyexn + pyval) \<times> pystate" where
  "setitem obj k v s =
     (case obj of
        PRef a \<Rightarrow>
          (case heap s a of
             Some (ODict d) \<Rightarrow>
               if hashable s k
               then (Inr PNone, s\<lparr>heap := (heap s)(a \<mapsto> ODict (item_set d k v))\<rparr>)
               else (Inl (TypeError (''unhashable type: '' @ quoted (type_name s k))), s)
           | _ \<Rightarrow> (Inl (TypeError (quoted (type_name s obj) @
                         '' object does not support item assignment'')), s))
      | _ \<Rightarrow> (Inl (TypeError (quoted (type_name s obj) @
                    '' object does not support item assignment'')), s))"

definition getitem :: "pystate \<Rightarrow> pyval \<Rightarrow> pyval \<Rightarrow> pyval option" where
  "getitem s obj k =
     (case obj of
        PRef a \<Rightarrow> (case heap s a of Some (ODict d) \<Rightarrow> map_of d k | _ \<Rightarrow> None)
      | _ \<Rightarrow> None)"

text \<open>The content of the list object a value refers to.\<close>

definition list_of :: "pystate \<Rightarrow> pyval \<Rightarrow> pyval list option" where
  "list_of s obj =
     (case obj of
        PRef a \<Rightarrow> (case heap s a of Some (OList xs) \<Rightarrow> Some xs | _ \<Rightarrow> None)
      | _ \<Rightarrow> None)"

text \<open>\<open>message[key]\<close> on a message: a dict value has the key or raises \<open>KeyError\<close>.\<close>

definition subscript :: "pystate \<Rightarrow> pyval \<Rightarrow> string \<Rightarrow> pyexn + pyval" where
  "subscript s m key =
     (case m of
        PDict d \<Rightarrow> (case map_of d key of Some v \<Rightarrow> Inr v | None \<Rightarrow> Inl (KeyError key))
      | _ \<Rightarrow> Inl (TypeError (quoted (type_name s m) @ '' object is not subscriptable'')))"

definition print_in_color :: "pyval list \<Rightarrow> string \<Rightarrow> pystate \<Rightarrow> pystate" where
  "print_in_color pieces color s = s\<lparr>out := out s @ [PrintInColor pieces color [CHR 0x0A]]\<rparr>"


section \<open>Agent (agent.py)\<close>

definition DEFAULT_FUNCTION_CALL_REPEATS :: pyval where
  "DEFAULT_FUNCTION_CALL_REPEATS = PInt 10"

definition DEFAULT_IGNORE_NONE_FUNCTION_MESSAGES :: pyval where
  "DEFAULT_IGNORE_NONE_FUNCTION_MESSAGES = PBool True"

text \<open>
  \<open>Agent.__init__\<close> on the fresh instance \<open>self\<close>. The list literal of \<open>self.memory\<close>
  is a new list object at every call.
\<close>

definition Agent_init ::
  "addr \<Rightarrow> pyval \<Rightarrow> pyval \<Rightarrow> pyval \<Rightarrow> pyval \<Rightarrow> pyval \<Rightarrow> pyval \<Rightarrow> pystate \<Rightarrow> pystate" where
  "Agent_init self name prompt engine role function_call_repeats
      ignore_none_function_messages s =
     (let s1 = setattr self ''name'' name s;
          s2 = setattr self ''engine'' engine s1;
          s3 = setattr self ''role'' role s2;
          (l, s4) = alloc (OList [PDict [(''role'', PStr ''system''), (''content'', prompt)]]) s3;
          s5 = setattr self ''memory'' (PRef l) s4;
          s6 = setattr self ''function_call_repeats'' function_call_repeats s5
      in setattr self ''ignore_none_function_messages'' ignore_none_function_messages s6)"

text \<open>\<open>Agent(name, prompt, engine, role, ...)\<close> with every argument bound.\<close>

definition Agent_new ::
  "pyval \<Rightarrow> pyval \<Rightarrow> pyval \<Rightarrow> pyval \<Rightarrow> pyval \<Rightarrow> pyval \<Rightarrow> pystate \<Rightarrow> pyval \<times> pystate" where
  "Agent_new name prompt engine role function_call_repeats ignore_none_function_messages s =
     (let (self, s0) = alloc (OInst ''Agent'' []) s
      in (PRef self,
          Agent_init self name prompt engine role function_call_repeats
            ignore_none_function_messages s0))"

text \<open>
  \<open>receive_message(self, message, print_output)\<close>. The method has no \<open>return\<close>
  statement: it returns \<open>None\<close>.
\<close>

definition receive_message :: "pyval \<Rightarrow> pyval \<Rightarrow> bool \<Rightarrow> pystate \<Rightarrow> (pyexn + pyval) \<times> pystate" where
  "receive_message self message print_output s =
     (case (if print_output
            then (case getattr s self ''name'' of
                    Inl e \<Rightarrow> Inl e
                  | Inr name \<Rightarrow>
                      (case subscript s message ''content'' of
                         Inl e \<Rightarrow> Inl e
                       | Inr content \<Rightarrow>
                           Inr (print_in_color [name, PStr '' received a message: '', content]
                                  ''green'' s)))
            else Inr s) of
        Inl e \<Rightarrow> (Inl e, s)
      | Inr s1 \<Rightarrow>
          (case getattr s1 self ''memory'' of
             Inl e \<Rightarrow> (Inl e, s1)
           | Inr memory \<Rightarrow>
               (case list_append memory message s1 of
                  (Inl e, s2) \<Rightarrow> (Inl e, s2)
                | (Inr r, s2) \<Rightarrow> (Inr PNone, s2))))"

text \<open>The memory of an agent: the content of the list \<open>self.memory\<close> refers to.\<close>

definition memory_of :: "pystate \<Rightarrow> pyval \<Rightarrow> pyval list option" where
  "memory_of s self =
     (case getattr s self ''memory'' of Inl e \<Rightarrow> None | Inr m \<Rightarrow> list_of s m)"

text \<open>
  A method call \<open>obj.think_and_act()\<close> or \<open>obj.last_message()\<close> needs an object that
  has the attribute; on \<open>None\<close> the attribute lookup raises.
\<close>

definition method_lookup :: "pystate \<Rightarrow> pyval \<Rightarrow> string \<Rightarrow> pyexn + pyval" where
  "method_lookup s obj name =
     (case obj of
        PRef a \<Rightarrow>
          (case heap s a of
             Some (OInst cls d) \<Rightarrow>
               if cls = ''Agent'' \<and> name \<in> set [''print_memory'', ''_callable_function_descriptions'',
                    ''_call_function'', ''receive_message'', ''response_to_message'',
                    ''think_and_act'']
               then Inr obj
               else (case getattr s obj name of Inl e \<Rightarrow> Inl e | Inr v \<Rightarrow> Inr obj)
           | _ \<Rightarrow> Inl (AttributeError s obj name))
      | _ \<Rightarrow> Inl (AttributeError s obj name))"

subsection \<open>Facts about construction and receive\_message\<close>

definition agent_dict ::
  "pyval \<Rightarrow> pyval \<Rightarrow> pyval \<Rightarrow> addr \<Rightarrow> pyval \<Rightarrow> pyval \<Rightarrow> (string \<times> pyval) list" where
  "agent_dict name engine role l fcr ign =
     [(''name'', name), (''engine'', engine), (''role'', role), (''memory'', PRef l),
      (''function_call_repeats'', fcr), (''ignore_none_function_messages'', ign)]"

lemma setattr_fresh:
  "setattr a n v (s\<lparr>heap := h(a \<mapsto> OInst cls d), nxt := k\<rparr>)
     = s\<lparr>heap := h(a \<mapsto> OInst cls (dict_set d n v)), nxt := k\<rparr>"
  by (simp add: setattr_def)

lemma setattr_fresh2:
  "a \<noteq> l \<Longrightarrow>
   setattr a n v (s\<lparr>heap := h(a \<mapsto> OInst cls d, l \<mapsto> obj), nxt := k\<rparr>)
     = s\<lparr>heap := h(a \<mapsto> OInst cls (dict_set d n v), l \<mapsto> obj), nxt := k\<rparr>"
  by (simp add: setattr_def fun_upd_twist)

lemma Agent_new_eq:
  "Agent_new name prompt engine role fcr ign s =
     (PRef (nxt s),
      s\<lparr>heap := (heap s)
            (nxt s \<mapsto> OInst ''Agent'' (agent_dict name engine role (Suc (nxt s)) fcr ign),
             Suc (nxt s) \<mapsto> OList [PDict [(''role'', PStr ''system''), (''content'', prompt)]]),
        nxt := Suc (Suc (nxt s))\<rparr>)"
  by (simp add: Agent_new_def Agent_init_def alloc_def Let_def agent_dict_def
      setattr_fresh setattr_fresh2)

lemma type_name_heap:
  assumes "heap s = heap t"
  shows "type_name s v = type_name t v"
  unfolding type_name_def assms by (rule refl)

lemma getattr_heap:
  assumes "heap s = heap t"
  shows "getattr s obj n = getattr t obj n"
  unfolding getattr_def AttributeError_def type_name_heap [OF assms] assms by (rule refl)

lemma getattr_agent:
  "heap s a = Some (OInst ''Agent'' (agent_dict name engine role l fcr ign)) \<Longrightarrow>
   getattr s (PRef a) ''memory'' = Inr (PRef l)
   \<and> getattr s (PRef a) ''name'' = Inr name
   \<and> getattr s (PRef a) ''engine_args'' = Inr (PRef Agent_engine_args_addr)"
  by (simp add: getattr_def agent_dict_def class_namespace_def Agent_class_def)

lemma receive_message_quiet:
  assumes "getattr s self ''memory'' = Inr (PRef l)" and "heap s l = Some (OList xs)"
  shows "receive_message self m False s
           = (Inr PNone, s\<lparr>heap := (heap s)(l \<mapsto> OList (xs @ [m]))\<rparr>)"
  using assms by (simp add: receive_message_def list_append_def)

lemma receive_message_echo:
  assumes "getattr s self ''memory'' = Inr (PRef l)" and "heap s l = Some (OList xs)"
    and "getattr s self ''name'' = Inr name" and "subscript s m ''content'' = Inr content"
  shows "receive_message self m True s
           = (Inr PNone,
              s\<lparr>out := out s @ [PrintInColor [name, PStr '' received a message: '', content]
                                   ''green'' [CHR 0x0A]],
                heap := (heap s)(l \<mapsto> OList (xs @ [m]))\<rparr>)"
proof -
  let ?s1 = "print_in_color [name, PStr '' received a message: '', content] ''green'' s"
  have h: "heap ?s1 = heap s"
    by (simp add: print_in_color_def)
  have "getattr ?s1 self ''memory'' = Inr (PRef l)"
    using assms(1) getattr_heap [OF h] by simp
  with assms h show ?thesis
    by (simp add: receive_message_def list_append_def) (simp add: print_in_color_def)
qed

text \<open>
  The part of claim C1 that holds: a call that goes through appends exactly the message
  to the end of the agent's memory and leaves the earlier entries as they were. What
  it returns is \<open>None\<close>.
\<close>

lemma receive_message_appends:
  assumes "getattr s self ''memory'' = Inr (PRef l)" and "heap s l = Some (OList xs)"
    and "heap s a = Some (OInst cls d)" and "self = PRef a"
    and "receive_message self m p s = (Inr r, s')"
  shows "memory_of s' self = Some (xs @ [m]) \<and> r = PNone"
proof -
  have ne: "a \<noteq> l"
    using assms(2,3) by auto
  have upd: "heap s' = (heap s)(l \<mapsto> OList (xs @ [m])) \<and> r = PNone"
  proof (cases p)
    case False
    with assms(5) receive_message_quiet [OF assms(1,2), of m] show ?thesis by auto
  next
    case True
    from True assms(5) obtain name content
      where n: "getattr s self ''name'' = Inr name"
        and c: "subscript s m ''content'' = Inr content"
      by (auto simp: receive_message_def split: sum.splits)
    from receive_message_echo [OF assms(1,2) n c] True assms(5) show ?thesis by auto
  qed
  have "getattr s' self ''memory'' = Inr (PRef l)"
    using assms(1,3,4) upd ne by (simp add: getattr_def split: option.splits)
  with upd show ?thesis
    by (simp add: memory_of_def list_of_def)
qed

text \<open>
  An agent built by the constructor in the state of the freshly imported module:
  \<^verbatim>\<open>Agent('Bot', 'You are a helpful bot.', engine='gpt-4', role='agent',
      function_call_repeats=1, ignore_none_function_messages=False)\<close>.
\<close>

definition bot_agent :: "pyval \<times> pystate" where
  "bot_agent =
     Agent_new (PStr ''Bot'') (PStr ''You are a helpful bot.'') (PStr ''gpt-4'') (PStr ''agent'')
       (PInt 1) (PBool False) module_state"

definition hello :: pyval where
  "hello = PDict [(''role'', PStr ''user''), (''content'', PStr ''hello'')]"

definition bot_received :: "(pyexn + pyval) \<times> pystate" where
  "bot_received = receive_message (fst bot_agent) hello True (snd bot_agent)"

lemma bot_agent_eq:
  "fst bot_agent = PRef 3
   \<and> heap (snd bot_agent) 3
       = Some (OInst ''Agent'' (agent_dict (PStr ''Bot'') (PStr ''gpt-4'') (PStr ''agent'') 4
                 (PInt 1) (PBool False)))
   \<and> heap (snd bot_agent) 4
       = Some (OList [PDict [(''role'', PStr ''system''),
                             (''content'', PStr ''You are a helpful bot.'')]])"
  by (simp add: bot_agent_def Agent_new_eq module_state_def)

lemma bot_received_eq:
  "bot_received =
     (Inr PNone,
      (snd bot_agent)
        \<lparr>out := out (snd bot_agent) @
            [PrintInColor [PStr ''Bot'', PStr '' received a message: '', PStr ''hello'']
               ''green'' [CHR 0x0A]],
         heap := (heap (snd bot_agent))
            (4 \<mapsto> OList [PDict [(''role'', PStr ''system''),
                                 (''content'', PStr ''You are a helpful bot.'')], hello])\<rparr>)"
proof -
  note b = bot_agent_eq
  from b have g: "getattr (snd bot_agent) (PRef 3) ''memory'' = Inr (PRef 4)"
    "getattr (snd bot_agent) (PRef 3) ''name'' = Inr (PStr ''Bot'')"
    using getattr_agent [of "snd bot_agent" 3] by simp_all
  have c: "subscript (snd bot_agent) hello ''content'' = Inr (PStr ''hello'')"
    by (simp add: subscript_def hello_def)
  from b have l: "heap (snd bot_agent) 4
       = Some (OList [PDict [(''role'', PStr ''system''),
                             (''content'', PStr ''You are a helpful bot.'')]])"
    by simp
  from receive_message_echo [OF g(1) l g(2) c] b show ?thesis
    by (simp add: bot_received_def)
qed

text \<open>
  Claim C1, at a concrete call. The agent \<open>Bot\<close> is constructed in the state of the
  freshly imported module and receives the user message \<open>hello\<close> with echo. The message
  is appended to the end of its memory, after the system prompt; but the call returns
  \<open>None\<close>, not the agent, so the next link of a chain
  \<open>receive_message(...).think_and_act()\<close>, as \<open>rephrase\<close> of function.py writes it,
  raises \<open>AttributeError\<close>.
\<close>

theorem receive_message_returns_None:
  "fst bot_received = Inr PNone
   \<and> fst bot_received \<noteq> Inr (fst bot_agent)
   \<and> memory_of (snd bot_received) (fst bot_agent)
       = Some [PDict [(''role'', PStr ''system''),
                      (''content'', PStr ''You are a helpful bot.'')], hello]
   \<and> (case fst bot_received of
         Inl e \<Rightarrow> Inl e
       | Inr r \<Rightarrow> method_lookup (snd bot_received) r ''think_and_act'')
       = Inl (PyExn ''AttributeError''
               (quoted ''NoneType'' @ '' object has no attribute '' @ quoted ''think_and_act''))"
proof -
  note b = bot_agent_eq
  have r: "fst bot_received = Inr PNone"
    by (simp add: bot_received_eq)
  have h3: "heap (snd bot_received) 3 = heap (snd bot_agent) 3"
    and h4: "heap (snd bot_received) 4
       = Some (OList [PDict [(''role'', PStr ''system''),
                             (''content'', PStr ''You are a helpful bot.'')], hello])"
    by (simp_all add: bot_received_eq)
  from h3 b have "getattr (snd bot_received) (PRef 3) ''memory'' = Inr (PRef 4)"
    using getattr_agent [of "snd bot_received" 3] by simp
  with h4 b have m: "memory_of (snd bot_received) (fst bot_agent)
       = Some [PDict [(''role'', PStr ''system''),
                      (''content'', PStr ''You are a helpful bot.'')], hello]"
    by (simp add: memory_of_def list_of_def)
  have c: "method_lookup (snd bot_received) PNone ''think_and_act''
       = Inl (PyExn ''AttributeError''
               (quoted ''NoneType'' @ '' object has no attribute '' @ quoted ''think_and_act''))"
    by (simp add: method_lookup_def AttributeError_def type_name_def)
  from r b m c show ?thesis by simp
qed

section \<open>Sharing between instances\<close>

text \<open>
  \<open>agent.engine_args[key] = value\<close>: a change of the sampling parameters in place,
  through one agent; and the reading \<open>agent.engine_args[key]\<close>.
\<close>

definition set_engine_arg :: "pyval \<Rightarrow> pyval \<Rightarrow> pyval \<Rightarrow> pystate \<Rightarrow> (pyexn + pyval) \<times> pystate" where
  "set_engine_arg agent key v s =
     (case getattr s agent ''engine_args'' of
        Inl e \<Rightarrow> (Inl e, s)
      | Inr engine_args \<Rightarrow> setitem engine_args key v s)"

definition engine_arg :: "pystate \<Rightarrow> pyval \<Rightarrow> pyval \<Rightarrow> pyval option" where
  "engine_arg s agent key =
     (case getattr s agent ''engine_args'' of
        Inl e \<Rightarrow> None
      | Inr engine_args \<Rightarrow> getitem s engine_args key)"

definition agent_a :: "pyval \<times> pystate" where
  "agent_a =
     Agent_new (PStr ''A'') (PStr ''You are A.'') (PStr ''gpt-3.5-turbo-16k'') (PStr ''agent'')
       DEFAULT_FUNCTION_CALL_REPEATS DEFAULT_IGNORE_NONE_FUNCTION_MESSAGES module_state"

definition agent_b :: "pyval \<times> pystate" where
  "agent_b =
     Agent_new (PStr ''B'') (PStr ''You are B.'') (PStr ''gpt-3.5-turbo-16k'') (PStr ''agent'')
       DEFAULT_FUNCTION_CALL_REPEATS DEFAULT_IGNORE_NONE_FUNCTION_MESSAGES (snd agent_a)"

text \<open>\<open>a.engine_args['temperature'] = 0.5\<close> once both agents exist.\<close>

definition cooled :: "(pyexn + pyval) \<times> pystate" where
  "cooled = set_engine_arg (fst agent_a) (PStr ''temperature'') (PFloat (1 / 2)) (snd agent_b)"

lemma getattr_addr:
  assumes "heap s x = heap t x"
  shows "getattr s (PRef x) n = getattr t (PRef x) n"
proof -
  have e: "AttributeError s (PRef x) n = AttributeError t (PRef x) n"
    by (simp add: AttributeError_def type_name_def assms)
  show ?thesis
    unfolding getattr_def e by (simp add: assms)
qed

lemma getattr_out [simp]:
  "getattr (s\<lparr>out := ev\<rparr>) obj n = getattr s obj n"
  by (rule getattr_heap) simp

lemma receive_message_frame:
  assumes "getattr s self ''memory'' = Inr (PRef l)" and "x \<noteq> l"
  shows "heap (snd (receive_message self m p s)) x = heap s x"
  using assms
  by (auto simp: receive_message_def list_append_def print_in_color_def
      split: sum.splits option.splits pyobj.splits)

lemma receive_message_frame_none:
  assumes "getattr s self ''memory'' = Inl e"
  shows "heap (snd (receive_message self m p s)) = heap s"
  using assms
  by (auto simp: receive_message_def list_append_def print_in_color_def
      split: sum.splits option.splits pyobj.splits)

lemma memory_of_cong:
  assumes "heap s x = heap t x"
    and "\<And>l. getattr t (PRef x) ''memory'' = Inr (PRef l) \<Longrightarrow> heap s l = heap t l"
  shows "memory_of s (PRef x) = memory_of t (PRef x)"
proof -
  have g: "getattr s (PRef x) ''memory'' = getattr t (PRef x) ''memory''"
    using assms(1) by (rule getattr_addr)
  show ?thesis
  proof (cases "getattr t (PRef x) ''memory''")
    case (Inl e)
    with g show ?thesis by (simp add: memory_of_def)
  next
    case (Inr v)
    show ?thesis
    proof (cases v)
      case (PRef l)
      with Inr assms(2) have "heap s l = heap t l" by simp
      with g Inr PRef show ?thesis by (simp add: memory_of_def list_of_def)
    qed (use g Inr in \<open>simp_all add: memory_of_def list_of_def\<close>)
  qed
qed

lemma setitem_keeps_instances:
  "heap s x = Some (OInst cls d) \<Longrightarrow> heap (snd (setitem obj k v s)) x = Some (OInst cls d)"
  by (auto simp: setitem_def split: pyval.splits option.splits pyobj.splits)

lemma engine_args_of_agent:
  "heap s x = Some (OInst ''Agent'' (agent_dict name engine role l fcr ign)) \<Longrightarrow>
   getattr s (PRef x) ''engine_args'' = Inr (PRef Agent_engine_args_addr)"
  by (simp add: getattr_agent)

text \<open>
  Claim C2, as the code has it. Take two agents constructed independently: the first
  in any state \<open>s\<close>, the second in any later state \<open>t\<close> (the store has only grown, and
  the first agent's instance object, at the address \<open>nxt s\<close>, is as its constructor left
  it). Their memories are distinct list objects, so a message received by one never
  changes the memory of the other. Their sampling parameters are not per instance:
  \<open>engine_args\<close> of both is the one dict object of the class, so whatever is stored in
  it through one agent is what the other reads.
\<close>

theorem agents_own_memory_share_engine_args:
  assumes "Agent_new n1 p1 e1 r1 f1 i1 s = (a, s1)"
    and "nxt s1 \<le> nxt t"
    and "heap t (nxt s) = heap s1 (nxt s)"
    and "Agent_new n2 p2 e2 r2 f2 i2 t = (b, s2)"
  shows "a \<noteq> b
    \<and> (\<exists>la lb. getattr s2 a ''memory'' = Inr (PRef la)
          \<and> getattr s2 b ''memory'' = Inr (PRef lb) \<and> la \<noteq> lb)
    \<and> memory_of (snd (receive_message a m p s2)) b = memory_of s2 b
    \<and> memory_of (snd (receive_message b m p s2)) a = memory_of s2 a
    \<and> getattr s2 a ''engine_args'' = Inr (PRef Agent_engine_args_addr)
    \<and> getattr s2 b ''engine_args'' = Inr (PRef Agent_engine_args_addr)
    \<and> engine_arg (snd (set_engine_arg a k v s2)) b k
        = engine_arg (snd (set_engine_arg a k v s2)) a k"
proof -
  let ?xa = "nxt s" and ?xb = "nxt t"
  let ?da = "agent_dict n1 e1 r1 (Suc ?xa) f1 i1"
  let ?db = "agent_dict n2 e2 r2 (Suc ?xb) f2 i2"
  from assms(1) have a: "a = PRef ?xa" and n1: "nxt s1 = Suc (Suc ?xa)"
    and ha1: "heap s1 ?xa = Some (OInst ''Agent'' ?da)"
    by (auto simp: Agent_new_eq)
  from assms(4) have b: "b = PRef ?xb"
    and h2: "heap s2 = (heap t)(?xb \<mapsto> OInst ''Agent'' ?db,
        Suc ?xb \<mapsto> OList [PDict [(''role'', PStr ''system''), (''content'', p2)]])"
    by (auto simp: Agent_new_eq)
  from assms(2) n1 have lt: "Suc ?xa < ?xb" by simp
  have ha: "heap s2 ?xa = Some (OInst ''Agent'' ?da)"
    using h2 lt assms(3) ha1 by simp
  have hb: "heap s2 ?xb = Some (OInst ''Agent'' ?db)"
    using h2 by simp
  have ma: "getattr s2 a ''memory'' = Inr (PRef (Suc ?xa))"
    and ea: "getattr s2 a ''engine_args'' = Inr (PRef Agent_engine_args_addr)"
    using getattr_agent [OF ha] a by simp_all
  have mb: "getattr s2 b ''memory'' = Inr (PRef (Suc ?xb))"
    and eb: "getattr s2 b ''engine_args'' = Inr (PRef Agent_engine_args_addr)"
    using getattr_agent [OF hb] b by simp_all
  have ne: "a \<noteq> b"
    using a b lt by simp
  have mem: "\<exists>la lb. getattr s2 a ''memory'' = Inr (PRef la)
          \<and> getattr s2 b ''memory'' = Inr (PRef lb) \<and> la \<noteq> lb"
    using ma mb lt by auto
  have fa: "\<And>x. x \<noteq> Suc ?xa \<Longrightarrow> heap (snd (receive_message a m p s2)) x = heap s2 x"
    using receive_message_frame [OF ma] by simp
  have fb: "\<And>x. x \<noteq> Suc ?xb \<Longrightarrow> heap (snd (receive_message b m p s2)) x = heap s2 x"
    using receive_message_frame [OF mb] by simp
  have keep_b: "memory_of (snd (receive_message a m p s2)) b = memory_of s2 b"
    unfolding b
  proof (rule memory_of_cong)
    show "heap (snd (receive_message a m p s2)) ?xb = heap s2 ?xb"
      using fa [of ?xb] lt by simp
  next
    fix l
    assume "getattr s2 (PRef ?xb) ''memory'' = Inr (PRef l)"
    with mb b have "l = Suc ?xb" by simp
    then show "heap (snd (receive_message a m p s2)) l = heap s2 l"
      using fa [of l] lt by simp
  qed
  have keep_a: "memory_of (snd (receive_message b m p s2)) a = memory_of s2 a"
    unfolding a
  proof (rule memory_of_cong)
    show "heap (snd (receive_message b m p s2)) ?xa = heap s2 ?xa"
      using fb [of ?xa] lt by simp
  next
    fix l
    assume "getattr s2 (PRef ?xa) ''memory'' = Inr (PRef l)"
    with ma a have "l = Suc ?xa" by simp
    then show "heap (snd (receive_message b m p s2)) l = heap s2 l"
      using fb [of l] lt by simp
  qed
  let ?s3 = "snd (set_engine_arg a k v s2)"
  have s3: "?s3 = snd (setitem (PRef Agent_engine_args_addr) k v s2)"
    using ea by (simp add: set_engine_arg_def)
  have "heap ?s3 ?xa = Some (OInst ''Agent'' ?da)" and "heap ?s3 ?xb = Some (OInst ''Agent'' ?db)"
    unfolding s3 using ha hb by (simp_all add: setitem_keeps_instances)
  then have "getattr ?s3 a ''engine_args'' = Inr (PRef Agent_engine_args_addr)"
    and "getattr ?s3 b ''engine_args'' = Inr (PRef Agent_engine_args_addr)"
    using a b by (simp_all add: engine_args_of_agent)
  then have shared: "engine_arg ?s3 b k = engine_arg ?s3 a k"
    by (simp add: engine_arg_def)
  from ne mem keep_b keep_a ea eb shared show ?thesis by blast
qed

lemma agent_a_eq:
  "fst agent_a = PRef 3 \<and> nxt (snd agent_a) = 5
   \<and> heap (snd agent_a) = (heap module_state)
        (3 \<mapsto> OInst ''Agent'' (agent_dict (PStr ''A'') (PStr ''gpt-3.5-turbo-16k'')
                  (PStr ''agent'') 4 DEFAULT_FUNCTION_CALL_REPEATS
                  DEFAULT_IGNORE_NONE_FUNCTION_MESSAGES),
         4 \<mapsto> OList [PDict [(''role'', PStr ''system''), (''content'', PStr ''You are A.'')]])"
  by (simp add: agent_a_def Agent_new_eq module_state_def)

lemma agent_b_eq:
  "fst agent_b = PRef 5 \<and> nxt (snd agent_b) = 7
   \<and> heap (snd agent_b) = (heap (snd agent_a))
        (5 \<mapsto> OInst ''Agent'' (agent_dict (PStr ''B'') (PStr ''gpt-3.5-turbo-16k'')
                  (PStr ''agent'') 6 DEFAULT_FUNCTION_CALL_REPEATS
                  DEFAULT_IGNORE_NONE_FUNCTION_MESSAGES),
         6 \<mapsto> OList [PDict [(''role'', PStr ''system''), (''content'', PStr ''You are B.'')]])"
  by (simp add: agent_b_def Agent_new_eq agent_a_eq)

lemma engine_args_object:
  "heap (snd agent_b) Agent_engine_args_addr = Some (ODict [(PStr ''temperature'', PFloat 1.0)])"
  by (simp add: agent_b_eq agent_a_eq module_state_def Agent_engine_args_addr_def
      Agent_memory_addr_def World_agents_addr_def)

lemma engine_args_of_a_b:
  "getattr (snd agent_b) (fst agent_a) ''engine_args'' = Inr (PRef Agent_engine_args_addr)
   \<and> getattr (snd agent_b) (fst agent_b) ''engine_args'' = Inr (PRef Agent_engine_args_addr)"
proof -
  have "heap (snd agent_b) 3 = Some (OInst ''Agent'' (agent_dict (PStr ''A'')
          (PStr ''gpt-3.5-turbo-16k'') (PStr ''agent'') 4 DEFAULT_FUNCTION_CALL_REPEATS
          DEFAULT_IGNORE_NONE_FUNCTION_MESSAGES))"
    and "heap (snd agent_b) 5 = Some (OInst ''Agent'' (agent_dict (PStr ''B'')
          (PStr ''gpt-3.5-turbo-16k'') (PStr ''agent'') 6 DEFAULT_FUNCTION_CALL_REPEATS
          DEFAULT_IGNORE_NONE_FUNCTION_MESSAGES))"
    by (simp_all add: agent_b_eq agent_a_eq)
  then show ?thesis
    by (simp add: agent_a_eq agent_b_eq engine_args_of_agent)
qed

theorem agents_own_memory_share_engine_args_witness:
  "Agent_new (PStr ''A'') (PStr ''You are A.'') (PStr ''gpt-3.5-turbo-16k'') (PStr ''agent'')
       DEFAULT_FUNCTION_CALL_REPEATS DEFAULT_IGNORE_NONE_FUNCTION_MESSAGES module_state
     = (fst agent_a, snd agent_a)
   \<and> nxt (snd agent_a) \<le> nxt (snd agent_a)
   \<and> heap (snd agent_a) (nxt module_state) = heap (snd agent_a) (nxt module_state)
   \<and> Agent_new (PStr ''B'') (PStr ''You are B.'') (PStr ''gpt-3.5-turbo-16k'') (PStr ''agent'')
       DEFAULT_FUNCTION_CALL_REPEATS DEFAULT_IGNORE_NONE_FUNCTION_MESSAGES (snd agent_a)
     = (fst agent_b, snd agent_b)
   \<and> fst agent_a \<noteq> fst agent_b
   \<and> memory_of (snd (receive_message (fst agent_a) hello True (snd agent_b))) (fst agent_b)
       = memory_of (snd agent_b) (fst agent_b)
   \<and> memory_of (snd (receive_message (fst agent_b) hello True (snd agent_b))) (fst agent_a)
       = memory_of (snd agent_b) (fst agent_a)
   \<and> getattr (snd agent_b) (fst agent_a) ''engine_args'' = Inr (PRef Agent_engine_args_addr)
   \<and> getattr (snd agent_b) (fst agent_b) ''engine_args'' = Inr (PRef Agent_engine_args_addr)"
proof -
  have ca: "Agent_new (PStr ''A'') (PStr ''You are A.'') (PStr ''gpt-3.5-turbo-16k'')
       (PStr ''agent'') DEFAULT_FUNCTION_CALL_REPEATS DEFAULT_IGNORE_NONE_FUNCTION_MESSAGES
       module_state = (fst agent_a, snd agent_a)"
    by (simp add: agent_a_def)
  have cb: "Agent_new (PStr ''B'') (PStr ''You are B.'') (PStr ''gpt-3.5-turbo-16k'')
       (PStr ''agent'') DEFAULT_FUNCTION_CALL_REPEATS DEFAULT_IGNORE_NONE_FUNCTION_MESSAGES
       (snd agent_a) = (fst agent_b, snd agent_b)"
    by (simp add: agent_b_def)
  have le: "nxt (snd agent_a) \<le> nxt (snd agent_a)"
    by simp
  have same: "heap (snd agent_a) (nxt module_state) = heap (snd agent_a) (nxt module_state)"
    by simp
  from agents_own_memory_share_engine_args [OF ca le same cb, of hello True]
  show ?thesis
    using ca cb by simp
qed

text \<open>
  Claim C2 as stated fails for the sampling parameters. Two agents are constructed one
  after the other in the state of the freshly imported module; then
  \<open>a.engine_args['temperature'] = 0.5\<close> is executed through the first. The second
  agent's temperature, 1.0 before, is 0.5 after.
\<close>

theorem engine_args_shared_counterexample:
  "fst agent_a \<noteq> fst agent_b
   \<and> engine_arg (snd agent_b) (fst agent_b) (PStr ''temperature'') = Some (PFloat 1.0)
   \<and> fst cooled = Inr PNone
   \<and> engine_arg (snd cooled) (fst agent_b) (PStr ''temperature'') = Some (PFloat (1 / 2))
   \<and> engine_arg (snd cooled) (fst agent_b) (PStr ''temperature'')
       \<noteq> engine_arg (snd agent_b) (fst agent_b) (PStr ''temperature'')"
proof -
  note g = engine_args_of_a_b
  note o = engine_args_object
  have ne: "fst agent_a \<noteq> fst agent_b"
    by (simp add: agent_a_eq agent_b_eq)
  have before: "engine_arg (snd agent_b) (fst agent_b) (PStr ''temperature'') = Some (PFloat 1.0)"
    using g o by (simp add: engine_arg_def getitem_def)
  have c: "cooled = (Inr PNone, (snd agent_b)\<lparr>heap := (heap (snd agent_b))
      (Agent_engine_args_addr \<mapsto> ODict [(PStr ''temperature'', PFloat (1 / 2))])\<rparr>)"
    using g o by (simp add: cooled_def set_engine_arg_def setitem_def hashable_def)
  have hb: "heap (snd cooled) 5 = heap (snd agent_b) 5"
    by (simp add: c Agent_engine_args_addr_def)
  have "getattr (snd cooled) (PRef 5) ''engine_args''
          = getattr (snd agent_b) (PRef 5) ''engine_args''"
    using hb by (rule getattr_addr)
  with g have "getattr (snd cooled) (fst agent_b) ''engine_args''
          = Inr (PRef Agent_engine_args_addr)"
    by (simp add: agent_b_eq)
  then have after: "engine_arg (snd cooled) (fst agent_b) (PStr ''temperature'')
          = Some (PFloat (1 / 2))"
    by (simp add: engine_arg_def getitem_def c)
  have r: "fst cooled = Inr PNone"
    by (simp add: c)
  from ne before r after show ?thesis by simp
qed

section \<open>World (agent.py)\<close>

text \<open>\<open>World()\<close>: the class has no \<open>__init__\<close>, the instance starts with an empty \<open>__dict__\<close>.\<close>

definition World_new :: "pystate \<Rightarrow> pyval \<times> pystate" where
  "World_new s = (let (self, s') = alloc (OInst ''World'' []) s in (PRef self, s'))"

text \<open>
  \<open>add_agent\<close>: the arguments are passed on to \<open>Agent\<close>, all bound, and the new agent
  is stored with \<open>self.agents[name] = agent\<close>.
\<close>

definition add_agent ::
  "pyval \<Rightarrow> pyval \<Rightarrow> pyval \<Rightarrow> pyval \<Rightarrow> pyval \<Rightarrow> pyval \<Rightarrow> pyval \<Rightarrow> pystate
     \<Rightarrow> (pyexn + pyval) \<times> pystate" where
  "add_agent self name prompt role engine function_call_repeats
      ignore_none_function_messages s =
     (let (agent, s1) = Agent_new name prompt engine role function_call_repeats
                          ignore_none_function_messages s
      in case getattr s1 self ''agents'' of
           Inl e \<Rightarrow> (Inl e, s1)
         | Inr agents \<Rightarrow>
             (case setitem agents name agent s1 of
                (Inl e, s2) \<Rightarrow> (Inl e, s2)
              | (Inr r, s2) \<Rightarrow> (Inr PNone, s2)))"

text \<open>\<open>add\<close>: \<open>self.agents[agent.name] = agent\<close>.\<close>

definition add :: "pyval \<Rightarrow> pyval \<Rightarrow> pystate \<Rightarrow> (pyexn + pyval) \<times> pystate" where
  "add self agent s =
     (case getattr s self ''agents'' of
        Inl e \<Rightarrow> (Inl e, s)
      | Inr agents \<Rightarrow>
          (case getattr s agent ''name'' of
             Inl e \<Rightarrow> (Inl e, s)
           | Inr name \<Rightarrow>
               (case setitem agents name agent s of
                  (Inl e, s2) \<Rightarrow> (Inl e, s2)
                | (Inr r, s2) \<Rightarrow> (Inr PNone, s2))))"

text \<open>\<open>world.agents[name]\<close>, read through a World instance.\<close>

definition agent_named :: "pystate \<Rightarrow> pyval \<Rightarrow> pyval \<Rightarrow> pyval option" where
  "agent_named s world name =
     (case getattr s world ''agents'' of
        Inl e \<Rightarrow> None
      | Inr agents \<Rightarrow> getitem s agents name)"

text \<open>
  A World instance as the source leaves it: no method assigns \<open>self.agents\<close>, so its
  \<open>__dict__\<close> has no entry \<open>agents\<close>.
\<close>

definition is_world :: "pystate \<Rightarrow> addr \<Rightarrow> bool" where
  "is_world s w =
     (case heap s w of
        Some (OInst cls d) \<Rightarrow> cls = ''World'' \<and> map_of d ''agents'' = None
      | _ \<Rightarrow> False)"

lemma map_of_item_set:
  "map_of (item_set d k v) = (map_of d)(k \<mapsto> v)"
  by (induction d) (auto simp: fun_eq_iff)

lemma is_world_new:
  "is_world (snd (World_new s)) (nxt s) \<and> fst (World_new s) = PRef (nxt s)"
  by (simp add: World_new_def alloc_def is_world_def)

lemma is_world_agents:
  "is_world s w \<Longrightarrow> getattr s (PRef w) ''agents'' = Inr (PRef World_agents_addr)"
  by (auto simp: is_world_def getattr_def class_namespace_def World_class_def
      split: option.splits pyobj.splits)

lemma is_world_cong:
  "heap t w = heap s w \<Longrightarrow> is_world t w = is_world s w"
  by (simp add: is_world_def)

lemma setitem_dict:
  assumes "heap s x = Some (ODict d)"
  shows "setitem (PRef x) (PStr n) v s
           = (Inr PNone, s\<lparr>heap := (heap s)(x \<mapsto> ODict (item_set d (PStr n) v))\<rparr>)"
  using assms by (simp add: setitem_def hashable_def)

lemma is_world_allocated:
  "is_world s w \<Longrightarrow> heap s w \<noteq> None"
  by (cases "heap s w") (simp_all add: is_world_def)

lemma is_world_not_dict:
  "is_world s w \<Longrightarrow> heap s w \<noteq> Some (ODict d)"
  by (cases "heap s w") (auto simp: is_world_def)

lemma agent_named_after_store:
  assumes "is_world s w" and "heap s World_agents_addr = Some (ODict d)"
  shows "is_world (s\<lparr>heap := (heap s)(World_agents_addr \<mapsto> ODict (item_set d k v))\<rparr>) w
         \<and> agent_named (s\<lparr>heap := (heap s)(World_agents_addr \<mapsto> ODict (item_set d k v))\<rparr>)
              (PRef w) k = Some v"
proof -
  let ?t = "s\<lparr>heap := (heap s)(World_agents_addr \<mapsto> ODict (item_set d k v))\<rparr>"
  from is_world_not_dict [OF assms(1), of d] assms(2) have ne: "w \<noteq> World_agents_addr"
    by auto
  then have "heap ?t w = heap s w" by simp
  from is_world_cong [OF this] assms(1) have w: "is_world ?t w"
    by simp
  then have "getattr ?t (PRef w) ''agents'' = Inr (PRef World_agents_addr)"
    by (rule is_world_agents)
  then have "agent_named ?t (PRef w) k = Some v"
    by (simp add: agent_named_def getitem_def map_of_item_set)
  with w show ?thesis by simp
qed

text \<open>
  Claim C10. \<open>World.agents\<close> is one dict object of the class. For any two World
  instances, the attribute \<open>agents\<close> of both is that object; an agent stored through
  one of them with \<open>add_agent\<close> or \<open>add\<close> is what the other finds under the name,
  whatever was stored under that name before; and both instances stay without a mapping
  of their own. The name is a text; the two addresses the constructor of the new agent
  takes are free.
\<close>

theorem world_agents_shared:
  assumes "is_world s w1" and "is_world s w2"
    and "heap s World_agents_addr = Some (ODict d)"
    and "heap s (nxt s) = None" and "heap s (Suc (nxt s)) = None"
    and "getattr s agent ''name'' = Inr (PStr m)"
  shows "getattr s (PRef w1) ''agents'' = Inr (PRef World_agents_addr)
    \<and> getattr s (PRef w2) ''agents'' = Inr (PRef World_agents_addr)
    \<and> fst (add_agent (PRef w1) (PStr n) prompt role engine fcr ign s) = Inr PNone
    \<and> agent_named (snd (add_agent (PRef w1) (PStr n) prompt role engine fcr ign s))
         (PRef w2) (PStr n) = Some (PRef (nxt s))
    \<and> agent_named (snd (add_agent (PRef w1) (PStr n) prompt role engine fcr ign s))
         (PRef w1) (PStr n) = Some (PRef (nxt s))
    \<and> is_world (snd (add_agent (PRef w1) (PStr n) prompt role engine fcr ign s)) w1
    \<and> is_world (snd (add_agent (PRef w1) (PStr n) prompt role engine fcr ign s)) w2
    \<and> fst (add (PRef w1) agent s) = Inr PNone
    \<and> agent_named (snd (add (PRef w1) agent s)) (PRef w2) (PStr m) = Some agent
    \<and> agent_named (snd (add (PRef w1) agent s)) (PRef w1) (PStr m) = Some agent
    \<and> is_world (snd (add (PRef w1) agent s)) w1
    \<and> is_world (snd (add (PRef w1) agent s)) w2"
proof -
  note g1 = is_world_agents [OF assms(1)] and g2 = is_world_agents [OF assms(2)]
  \<comment> \<open>add\<close>
  let ?t = "s\<lparr>heap := (heap s)(World_agents_addr \<mapsto> ODict (item_set d (PStr m) agent))\<rparr>"
  have add_eq: "add (PRef w1) agent s = (Inr PNone, ?t)"
    using g1 assms(6) setitem_dict [OF assms(3), of m agent] by (simp add: add_def)
  note a1 = agent_named_after_store [OF assms(1,3), of "PStr m" agent]
    and a2 = agent_named_after_store [OF assms(2,3), of "PStr m" agent]
  \<comment> \<open>add_agent\<close>
  define s1 where "s1 = snd (Agent_new (PStr n) prompt engine role fcr ign s)"
  have new: "Agent_new (PStr n) prompt engine role fcr ign s = (PRef (nxt s), s1)"
    by (simp add: s1_def Agent_new_eq)
  have h1: "heap s1 = (heap s)
        (nxt s \<mapsto> OInst ''Agent'' (agent_dict (PStr n) engine role (Suc (nxt s)) fcr ign),
         Suc (nxt s) \<mapsto> OList [PDict [(''role'', PStr ''system''), (''content'', prompt)]])"
    by (simp add: s1_def Agent_new_eq)
  have fresh: "heap s1 x = heap s x" if "heap s x \<noteq> None" for x
  proof -
    from that assms(4,5) have "x \<noteq> nxt s" and "x \<noteq> Suc (nxt s)" by auto
    then show ?thesis by (simp add: h1)
  qed
  have d1: "heap s1 World_agents_addr = Some (ODict d)"
    using assms(3) fresh [of World_agents_addr] by simp
  have w1: "is_world s1 w1"
    using assms(1) is_world_cong [OF fresh [OF is_world_allocated [OF assms(1)]]] by simp
  have w2: "is_world s1 w2"
    using assms(2) is_world_cong [OF fresh [OF is_world_allocated [OF assms(2)]]] by simp
  let ?u = "s1\<lparr>heap := (heap s1)(World_agents_addr \<mapsto>
                ODict (item_set d (PStr n) (PRef (nxt s))))\<rparr>"
  have add_agent_eq: "add_agent (PRef w1) (PStr n) prompt role engine fcr ign s = (Inr PNone, ?u)"
    using new is_world_agents [OF w1] setitem_dict [OF d1, of n "PRef (nxt s)"]
    by (simp add: add_agent_def)
  note b1 = agent_named_after_store [OF w1 d1, of "PStr n" "PRef (nxt s)"]
    and b2 = agent_named_after_store [OF w2 d1, of "PStr n" "PRef (nxt s)"]
  from g1 g2 a1 a2 b1 b2 show ?thesis
    by (simp only: add_eq add_agent_eq fst_conv snd_conv simp_thms)
qed

definition two_worlds :: pystate where
  "two_worlds = snd (World_new (snd (World_new module_state)))"

text \<open>Two World instances, and the agent Ann stored through the first.\<close>

definition ann_world :: pystate where
  "ann_world =
     snd (add_agent (PRef 3) (PStr ''Ann'') (PStr ''You are Ann.'') (PStr ''agent'')
            (PStr ''gpt-4'') (PInt 10) (PBool True) two_worlds)"

lemma two_worlds_eq:
  "heap two_worlds = (heap module_state)(3 \<mapsto> OInst ''World'' [], 4 \<mapsto> OInst ''World'' [])
   \<and> nxt two_worlds = 5"
  by (simp add: two_worlds_def World_new_def alloc_def module_state_def)

lemma ann_world_eq:
  "heap ann_world = (heap two_worlds)
      (5 \<mapsto> OInst ''Agent'' (agent_dict (PStr ''Ann'') (PStr ''gpt-4'') (PStr ''agent'') 6
                (PInt 10) (PBool True)),
       6 \<mapsto> OList [PDict [(''role'', PStr ''system''), (''content'', PStr ''You are Ann.'')]],
       World_agents_addr \<mapsto> ODict [(PStr ''Ann'', PRef 5)])
   \<and> nxt ann_world = 7"
proof -
  let ?s1 = "two_worlds\<lparr>heap := (heap two_worlds)
          (5 \<mapsto> OInst ''Agent'' (agent_dict (PStr ''Ann'') (PStr ''gpt-4'') (PStr ''agent'') 6
                    (PInt 10) (PBool True)),
           6 \<mapsto> OList [PDict [(''role'', PStr ''system''), (''content'', PStr ''You are Ann.'')]]),
          nxt := 7\<rparr>"
  have s1: "Agent_new (PStr ''Ann'') (PStr ''You are Ann.'') (PStr ''gpt-4'') (PStr ''agent'')
      (PInt 10) (PBool True) two_worlds = (PRef 5, ?s1)"
    by (simp add: Agent_new_eq two_worlds_eq)
  have "is_world ?s1 3"
    by (simp add: is_world_def two_worlds_eq)
  then have ag: "getattr ?s1 (PRef 3) ''agents'' = Inr (PRef World_agents_addr)"
    by (rule is_world_agents)
  have d1: "heap ?s1 World_agents_addr = Some (ODict [])"
    by (simp add: two_worlds_eq module_state_def World_agents_addr_def Agent_memory_addr_def
        Agent_engine_args_addr_def)
  have "add_agent (PRef 3) (PStr ''Ann'') (PStr ''You are Ann.'') (PStr ''agent'')
            (PStr ''gpt-4'') (PInt 10) (PBool True) two_worlds
        = (Inr PNone, ?s1\<lparr>heap := (heap ?s1)(World_agents_addr \<mapsto>
                ODict (item_set [] (PStr ''Ann'') (PRef 5)))\<rparr>)"
    unfolding add_agent_def s1 Let_def prod.case ag sum.case
      setitem_dict [OF d1, of "''Ann''" "PRef 5"] by (rule refl)
  then show ?thesis
    by (simp add: ann_world_def)
qed

theorem world_agents_shared_witness:
  "is_world ann_world 3 \<and> is_world ann_world 4
   \<and> heap ann_world World_agents_addr = Some (ODict [(PStr ''Ann'', PRef 5)])
   \<and> heap ann_world (nxt ann_world) = None
   \<and> heap ann_world (Suc (nxt ann_world)) = None
   \<and> getattr ann_world (PRef 5) ''name'' = Inr (PStr ''Ann'')
   \<and> agent_named ann_world (PRef 4) (PStr ''Ann'') = Some (PRef 5)
   \<and> agent_named (snd (add_agent (PRef 3) (PStr ''Ann'') (PStr ''You are the new Ann.'')
         (PStr ''agent'') (PStr ''gpt-4'') (PInt 10) (PBool True) ann_world))
         (PRef 4) (PStr ''Ann'') = Some (PRef 7)
   \<and> agent_named (snd (add (PRef 3) (PRef 5) ann_world)) (PRef 4) (PStr ''Ann'')
       = Some (PRef 5)"
proof -
  note e = ann_world_eq two_worlds_eq
  have addrs: "World_agents_addr = 2"
    by (simp add: World_agents_addr_def)
  have w3: "is_world ann_world 3" and w4: "is_world ann_world 4"
    by (simp_all add: is_world_def e addrs)
  have dd: "heap ann_world World_agents_addr = Some (ODict [(PStr ''Ann'', PRef 5)])"
    by (simp add: e)
  have f7: "heap ann_world (nxt ann_world) = None"
    and f8: "heap ann_world (Suc (nxt ann_world)) = None"
    by (simp_all add: e addrs module_state_def Agent_memory_addr_def Agent_engine_args_addr_def)
  have nm: "getattr ann_world (PRef 5) ''name'' = Inr (PStr ''Ann'')"
    by (simp add: e addrs getattr_def agent_dict_def)
  have now: "agent_named ann_world (PRef 4) (PStr ''Ann'') = Some (PRef 5)"
    using is_world_agents [OF w4] dd by (simp add: agent_named_def getitem_def)
  note t = world_agents_shared [OF w3 w4 dd f7 f8 nm, of "''Ann''" "PStr ''You are the new Ann.''"
      "PStr ''agent''" "PStr ''gpt-4''" "PInt 10" "PBool True"]
  have n7: "nxt ann_world = 7"
    by (simp add: e)
  from t have first: "agent_named (snd (add_agent (PRef 3) (PStr ''Ann'')
         (PStr ''You are the new Ann.'') (PStr ''agent'') (PStr ''gpt-4'') (PInt 10) (PBool True)
         ann_world)) (PRef 4) (PStr ''Ann'') = Some (PRef 7)"
    unfolding n7 by (elim conjE)
  from t have second: "agent_named (snd (add (PRef 3) (PRef 5) ann_world)) (PRef 4) (PStr ''Ann'')
       = Some (PRef 5)"
    by (elim conjE)
  show ?thesis
    by (intro conjI) (fact w3 w4 dd f7 f8 nm now first second)+
qed

section \<open>The think-act cycle and the function dispatcher (agent.py)\<close>

text \<open>
  What the source takes from outside the repository is a parameter of the model:
  \<open>re.match\<close>, \<open>json.loads\<close>, \<open>json.dumps(..., default=str)\<close>, \<open>str()\<close> of a value
  that is not a text, and the remote service, which answers the log of all completion
  requests issued so far (the last one being the request at hand) with the chunks it
  streams, or fails. \<open>CALLABLE_FUNCTION_TABLE\<close> is filled while the modules are
  imported and only read afterwards, so the registry is a parameter too. A registered
  function is called with keyword arguments and may read and change the whole state; it
  returns a value or raises.
\<close>

type_synonym body = "(string \<times> pyval) list \<Rightarrow> pystate \<Rightarrow> (pyexn + pyval) \<times> pystate"

record env =
  re_match :: "string \<Rightarrow> string \<Rightarrow> pyexn + bool"
  json_loads :: "string \<Rightarrow> pyexn + pyval"
  json_dumps :: "pyval \<Rightarrow> string"
  str_of :: "pyval \<Rightarrow> string"
  service :: "request list \<Rightarrow> pyexn + chunk list"
  CALLABLE_FUNCTION_TABLE :: "body function_table"

text \<open>\<open>str(v)\<close>, as an f-string applies it.\<close>

definition fmt :: "env \<Rightarrow> pyval \<Rightarrow> string" where
  "fmt env v = (case v of PStr t \<Rightarrow> t | _ \<Rightarrow> str_of env v)"

text \<open>The truth value of a value.\<close>

definition truthy :: "pystate \<Rightarrow> pyval \<Rightarrow> bool" where
  "truthy s v =
     (case v of
        PNone \<Rightarrow> False | PBool b \<Rightarrow> b | PInt i \<Rightarrow> i \<noteq> 0 | PFloat x \<Rightarrow> x \<noteq> 0
      | PStr t \<Rightarrow> t \<noteq> [] | PDict d \<Rightarrow> d \<noteq> [] | PList l \<Rightarrow> l \<noteq> []
      | PRef a \<Rightarrow>
          (case heap s a of
             Some (OList l) \<Rightarrow> l \<noteq> [] | Some (ODict d) \<Rightarrow> d \<noteq> [] | _ \<Rightarrow> True))"

text \<open>
  \<open>stream_chat_completion(engine, messages, print_output, **kwargs)\<close>: the request is
  issued and logged, with the messages as the list holds them at that moment; the answer
  is folded into one message by the loop of the first section. A failure of the service,
  at the request or while the stream is read, leaves the function as an exception.
\<close>

definition stream_chat_completion ::
  "env \<Rightarrow> pyval \<Rightarrow> pyval \<Rightarrow> bool \<Rightarrow> func_sig list option \<Rightarrow> (pyval \<times> pyval) list \<Rightarrow> pystate
     \<Rightarrow> (pyexn + pyval) \<times> pystate" where
  "stream_chat_completion env engine messages print_output functions kwargs s =
     (let req = \<lparr>r_model = engine,
                 r_messages = (case list_of s messages of None \<Rightarrow> [] | Some ms \<Rightarrow> ms),
                 r_functions = functions,
                 r_function_call = (case functions of None \<Rightarrow> None | Some fs \<Rightarrow> Some ''auto''),
                 r_kwargs = kwargs\<rparr>;
          s1 = s\<lparr>requests := requests s @ [req]\<rparr>
      in case service env (requests s1) of
           Inl e \<Rightarrow> (Inl e, s1)
         | Inr resp \<Rightarrow>
             (Inr (PDict (stream_message (stream_loop print_output resp))),
              s1\<lparr>out := out s1 @ stream_out print_output (stream_loop print_output resp)\<rparr>))"

text \<open>\<open>_callable_function_descriptions\<close>: the loop over the registry.\<close>

fun descriptions_loop ::
  "env \<Rightarrow> pystate \<Rightarrow> pyval \<Rightarrow> body function_table \<Rightarrow> func_sig list \<Rightarrow> pyexn + func_sig list" where
  "descriptions_loop env s self [] ds = Inr ds"
| "descriptions_loop env s self (entry # rest) ds =
     (case getattr s self ''role'' of
        Inl e \<Rightarrow> Inl e
      | Inr role \<Rightarrow>
          (case role of
             PStr r \<Rightarrow>
               (case re_match env (role_name_filter (snd entry)) r of
                  Inl e \<Rightarrow> Inl e
                | Inr matched \<Rightarrow>
                    if \<not> matched then descriptions_loop env s self rest ds
                    else descriptions_loop env s self rest (ds @ [fi_sig (snd entry)]))
           | _ \<Rightarrow> Inl (TypeError ''expected string or bytes-like object'')))"

definition callable_function_descriptions :: "env \<Rightarrow> pystate \<Rightarrow> pyval \<Rightarrow> pyexn + func_sig list" where
  "callable_function_descriptions env s self =
     descriptions_loop env s self (CALLABLE_FUNCTION_TABLE env) []"

text \<open>
  The \<open>try\<close> block of \<open>_call_function\<close>, for a name found in the registry: the value
  returned, or the exception the \<open>except\<close> clause will catch.
\<close>

definition inject :: "bool \<Rightarrow> string \<Rightarrow> pyval \<Rightarrow> pystate \<Rightarrow> pyval \<Rightarrow> pyexn + pyval" where
  "inject flag key v s function_args =
     (if flag
      then (case function_args of
              PDict d \<Rightarrow> Inr (PDict (dict_set d key v))
            | PList l \<Rightarrow> Inl (TypeError ''list indices must be integers or slices, not str'')
            | _ \<Rightarrow> Inl (TypeError (quoted (type_name s function_args) @
                          '' object does not support item assignment'')))
      else Inr function_args)"

definition call_function_try ::
  "env \<Rightarrow> pyval \<Rightarrow> pyval \<Rightarrow> body function_info \<Rightarrow> pyval \<Rightarrow> pyval \<Rightarrow> pystate
     \<Rightarrow> (pyexn + pyval) \<times> pystate" where
  "call_function_try env self function_name function_info function_call world s =
     (case getattr s self ''name'' of
        Inl e \<Rightarrow> (Inl e, s)
      | Inr name \<Rightarrow>
          (let s1 = print_in_color [PStr ''    '', name, PStr '' is calling function '',
                                    function_name, PStr '' ...''] ''blue'' s
           in case subscript s1 function_call ''arguments'' of
                Inl e \<Rightarrow> (Inl e, s1)
              | Inr raw \<Rightarrow>
                  (case (if raw = PNone then Inr (PDict [])
                         else (case raw of
                                 PStr t \<Rightarrow> json_loads env t
                               | _ \<Rightarrow> Inl (TypeError
                                   (''the JSON object must be str, bytes or bytearray, not '' @
                                    type_name s1 raw)))) of
                     Inl e \<Rightarrow> (Inl e, s1)
                   | Inr args0 \<Rightarrow>
                       (let s2 = print_in_color [PStr ''        with arguments '', args0] ''blue'' s1
                        in case inject (has_world_param function_info) WORLD_PARAM_NAME world
                                  s2 args0 of
                             Inl e \<Rightarrow> (Inl e, s2)
                           | Inr args1 \<Rightarrow>
                         (case inject (has_agent_param function_info) AGENT_PARAM_NAME self
                                  s2 args1 of
                             Inl e \<Rightarrow> (Inl e, s2)
                           | Inr args2 \<Rightarrow>
                         (case (if has_agent_name_param function_info
                                then (case getattr s2 self ''name'' of
                                        Inl e \<Rightarrow> Inl e
                                      | Inr name' \<Rightarrow>
                                          inject True AGENT_NAME_PARAM_NAME name' s2 args2)
                                else Inr args2) of
                             Inl e \<Rightarrow> (Inl e, s2)
                           | Inr args3 \<Rightarrow>
                         (case args3 of
                            PDict kwargs \<Rightarrow>
                              (case fi_function function_info kwargs s2 of
                                 (Inl e, s3) \<Rightarrow> (Inl e, s3)
                               | (Inr function_response, s3) \<Rightarrow>
                                   if function_response = PNone then (Inr PNone, s3)
                                   else (Inr function_response,
                                         print_in_color [PStr ''        response: '',
                                                         function_response] ''blue'' s3))
                          | _ \<Rightarrow> (Inl (TypeError (''argument after ** must be a mapping, not '' @
                                              type_name s2 args3)), s2))))))))"

text \<open>
  The lines the dispatcher prints, and its \<open>except Exception\<close> clause: an exception
  derived from \<open>Exception\<close> is printed and returned as \<open>{'error': str(e)}\<close>; any other
  exception is not caught and leaves the dispatcher.
\<close>

definition announce_call :: "pyval \<Rightarrow> string \<Rightarrow> pystate \<Rightarrow> pystate" where
  "announce_call agent_name n s =
     print_in_color [PStr ''    '', agent_name, PStr '' is calling function '', PStr n,
                     PStr '' ...''] ''blue'' s"

definition announce_arguments :: "pyval \<Rightarrow> pystate \<Rightarrow> pystate" where
  "announce_arguments args s = print_in_color [PStr ''        with arguments '', args] ''blue'' s"

definition report_error :: "pyexn \<Rightarrow> pystate \<Rightarrow> (pyexn + pyval) \<times> pystate" where
  "report_error e s =
     (case e of
        PyExn cls msg \<Rightarrow>
          (Inr (PDict [(''error'', PStr (exn_str e))]),
           print_in_color [PStr ''        error: '', PStr (exn_str e)] ''red'' s)
      | PyBaseExn cls msg \<Rightarrow> (Inl e, s))"

text \<open>
  \<open>_call_function(self, function_call, world)\<close>. The lookup of the name stands
  before the \<open>try\<close>; what the block raises goes to the \<open>except Exception\<close> clause.
\<close>

definition call_function ::
  "env \<Rightarrow> pyval \<Rightarrow> pyval \<Rightarrow> pyval \<Rightarrow> pystate \<Rightarrow> (pyexn + pyval) \<times> pystate" where
  "call_function env self function_call world s =
     (case subscript s function_call ''name'' of
        Inl e \<Rightarrow> (Inl e, s)
      | Inr function_name \<Rightarrow>
          (case function_name of
             PDict d \<Rightarrow> (Inl (TypeError (''unhashable type: '' @ quoted ''dict'')), s)
           | PList l \<Rightarrow> (Inl (TypeError (''unhashable type: '' @ quoted ''list'')), s)
           | _ \<Rightarrow>
               (case (case function_name of
                        PStr n \<Rightarrow> map_of (CALLABLE_FUNCTION_TABLE env) n
                      | _ \<Rightarrow> None) of
                  None \<Rightarrow>
                    (Inr (PDict [(''error'',
                            PStr ([CHR 0x22] @ fmt env function_name @ [CHR 0x22] @
                                  '' is not a callable function.''))]), s)
                | Some function_info \<Rightarrow>
                    (case call_function_try env self function_name function_info
                            function_call world s of
                       (Inl e, s') \<Rightarrow> report_error e s'
                     | (Inr r, s') \<Rightarrow> (Inr r, s')))))"

text \<open>
  The keyword arguments the function receives: the parsed arguments with the space, the
  agent and the agent's name added as the function's flags say.
\<close>

definition with_injected ::
  "body function_info \<Rightarrow> pyval \<Rightarrow> pyval \<Rightarrow> pyval \<Rightarrow> (string \<times> pyval) list
     \<Rightarrow> (string \<times> pyval) list" where
  "with_injected fi world self agent_name kwargs =
     (let a1 = (if has_world_param fi then dict_set kwargs WORLD_PARAM_NAME world else kwargs);
          a2 = (if has_agent_param fi then dict_set a1 AGENT_PARAM_NAME self else a1)
      in if has_agent_name_param fi then dict_set a2 AGENT_NAME_PARAM_NAME agent_name else a2)"

definition injected :: "body function_info \<Rightarrow> pyval \<Rightarrow> pyval \<Rightarrow> pyval \<Rightarrow> (string \<times> pyval) list" where
  "injected fi world self agent_name =
     (let a1 = (if has_world_param fi then dict_set [] WORLD_PARAM_NAME world else []);
          a2 = (if has_agent_param fi then dict_set a1 AGENT_PARAM_NAME self else a1)
      in if has_agent_name_param fi then dict_set a2 AGENT_NAME_PARAM_NAME agent_name else a2)"

text \<open>
  \<open>**self.engine_args\<close>: the items of the dict, which must not repeat a keyword the
  call writes out.
\<close>

definition engine_kwargs :: "pystate \<Rightarrow> pyval \<Rightarrow> string list \<Rightarrow> pyexn + (pyval \<times> pyval) list" where
  "engine_kwargs s self explicit =
     (case getattr s self ''engine_args'' of
        Inl e \<Rightarrow> Inl e
      | Inr engine_args \<Rightarrow>
          (case (case engine_args of
                   PRef a \<Rightarrow> (case heap s a of Some (ODict d) \<Rightarrow> Some d | _ \<Rightarrow> None)
                 | PDict d \<Rightarrow> Some (map (\<lambda>kv. (PStr (fst kv), snd kv)) d)
                 | _ \<Rightarrow> None) of
             None \<Rightarrow> Inl (TypeError (''argument after ** must be a mapping, not '' @
                            type_name s engine_args))
           | Some d \<Rightarrow>
               if \<exists>k \<in> set (map fst d). \<not> (case k of PStr t \<Rightarrow> True | _ \<Rightarrow> False)
               then Inl (TypeError ''keywords must be strings'')
               else if \<exists>k \<in> set (map fst d). k \<in> set (map PStr explicit)
               then Inl (TypeError ''got multiple values for keyword argument'')
               else Inr d))"

text \<open>
  One iteration of the loop of \<open>think_and_act\<close>, first half: the header line, the
  function list for the agent's role, and the completion request.
\<close>

definition think_request :: "env \<Rightarrow> pyval \<Rightarrow> pystate \<Rightarrow> (pyexn + pyval) \<times> pystate" where
  "think_request env self s =
     (case getattr s self ''name'' of
        Inl e \<Rightarrow> (Inl e, s)
      | Inr name \<Rightarrow>
          (let s1 = print_in_color [name, PStr '' >> ''] ''yellow'' s
           in case callable_function_descriptions env s1 self of
                Inl e \<Rightarrow> (Inl e, s1)
              | Inr callable_functions \<Rightarrow>
            (case getattr s1 self ''engine'' of
                Inl e \<Rightarrow> (Inl e, s1)
              | Inr engine \<Rightarrow>
            (case getattr s1 self ''memory'' of
                Inl e \<Rightarrow> (Inl e, s1)
              | Inr memory \<Rightarrow>
            (case getattr s1 self ''ignore_none_function_messages'' of
                Inl e \<Rightarrow> (Inl e, s1)
              | Inr ignore \<Rightarrow>
                  if callable_functions \<noteq> []
                  then (case engine_kwargs s1 self [''engine'', ''messages'', ''print_output'',
                                 ''functions'', ''function_call''] of
                          Inl e \<Rightarrow> (Inl e, s1)
                        | Inr kwargs \<Rightarrow>
                            stream_chat_completion env engine memory (\<not> truthy s1 ignore)
                              (Some callable_functions) kwargs s1)
                  else (case engine_kwargs s1 self [''engine'', ''messages'', ''print_output''] of
                          Inl e \<Rightarrow> (Inl e, s1)
                        | Inr kwargs \<Rightarrow>
                            stream_chat_completion env engine memory (\<not> truthy s1 ignore)
                              None kwargs s1))))))"

text \<open>
  Second half: the branch on \<open>new_message.get("function_call")\<close>. The result is
  \<open>True\<close> when the loop goes on to its next iteration and \<open>False\<close> at \<open>break\<close>.
\<close>

definition think_dispatch ::
  "env \<Rightarrow> pyval \<Rightarrow> pyval \<Rightarrow> pyval \<Rightarrow> pystate \<Rightarrow> (pyexn + bool) \<times> pystate" where
  "think_dispatch env self world new_message s =
     (case new_message of
        PDict m \<Rightarrow>
          if (case map_of m ''function_call'' of None \<Rightarrow> False | Some fc \<Rightarrow> truthy s fc)
          then (case getattr s self ''memory'' of
                  Inl e \<Rightarrow> (Inl e, s)
                | Inr memory \<Rightarrow>
              (case list_append memory new_message s of
                  (Inl e, s1) \<Rightarrow> (Inl e, s1)
                | (Inr r1, s1) \<Rightarrow>
              (case subscript s1 new_message ''function_call'' of
                  Inl e \<Rightarrow> (Inl e, s1)
                | Inr function_call \<Rightarrow>
              (case call_function env self function_call world s1 of
                  (Inl e, s2) \<Rightarrow> (Inl e, s2)
                | (Inr r, s2) \<Rightarrow>
              (let function_response = (if r = PNone then PStr ''done'' else r)
               in case getattr s2 self ''memory'' of
                  Inl e \<Rightarrow> (Inl e, s2)
                | Inr memory' \<Rightarrow>
              (case subscript s2 function_call ''name'' of
                  Inl e \<Rightarrow> (Inl e, s2)
                | Inr function_name \<Rightarrow>
              (case list_append memory'
                      (PDict [(''role'', PStr ''function''),
                              (''name'', function_name),
                              (''content'', PStr (json_dumps env function_response))]) s2 of
                  (Inl e, s3) \<Rightarrow> (Inl e, s3)
                | (Inr r3, s3) \<Rightarrow> (Inr True, s3))))))))
          else (case getattr s self ''ignore_none_function_messages'' of
                  Inl e \<Rightarrow> (Inl e, s)
                | Inr ignore \<Rightarrow>
                    if \<not> truthy s ignore
                    then (case getattr s self ''memory'' of
                            Inl e \<Rightarrow> (Inl e, s)
                          | Inr memory \<Rightarrow>
                              (case list_append memory new_message s of
                                 (Inl e, s1) \<Rightarrow> (Inl e, s1)
                               | (Inr r1, s1) \<Rightarrow> (Inr False, s1)))
                    else (Inr False, s))
      | _ \<Rightarrow> (Inl (AttributeError s new_message ''get''), s))"

definition think_step :: "env \<Rightarrow> pyval \<Rightarrow> pyval \<Rightarrow> pystate \<Rightarrow> (pyexn + bool) \<times> pystate" where
  "think_step env self world s =
     (case think_request env self s of
        (Inl e, s1) \<Rightarrow> (Inl e, s1)
      | (Inr new_message, s1) \<Rightarrow> think_dispatch env self world new_message s1)"

text \<open>The \<open>for\<close> loop over \<open>range(n)\<close>; it returns nothing.\<close>

fun think_loop :: "env \<Rightarrow> pyval \<Rightarrow> pyval \<Rightarrow> nat \<Rightarrow> pystate \<Rightarrow> (pyexn + pyval) \<times> pystate" where
  "think_loop env self world 0 s = (Inr PNone, s)"
| "think_loop env self world (Suc n) s =
     (case think_step env self world s of
        (Inl e, s') \<Rightarrow> (Inl e, s')
      | (Inr again, s') \<Rightarrow>
          if again then think_loop env self world n s' else (Inr PNone, s'))"

definition think_and_act :: "env \<Rightarrow> pyval \<Rightarrow> pyval \<Rightarrow> pystate \<Rightarrow> (pyexn + pyval) \<times> pystate" where
  "think_and_act env self world s =
     (case getattr s self ''function_call_repeats'' of
        Inl e \<Rightarrow> (Inl e, s)
      | Inr repeats \<Rightarrow>
          (case repeats of
             PInt k \<Rightarrow> think_loop env self world (nat k) s
           | PBool b \<Rightarrow> think_loop env self world (if b then 1 else 0) s
           | _ \<Rightarrow> (Inl (TypeError (quoted (type_name s repeats) @
                          '' object cannot be interpreted as an integer'')), s)))"

subsection \<open>Facts about the dispatcher\<close>

lemma subscript_dict:
  "subscript t (PDict d) key = (case map_of d key of Some v \<Rightarrow> Inr v | None \<Rightarrow> Inl (KeyError key))"
  by (simp add: subscript_def)

lemma getattr_print [simp]:
  "getattr (print_in_color pieces color s) obj n = getattr s obj n"
  by (simp add: print_in_color_def)


lemma call_function_unknown:
  assumes "map_of fc ''name'' = Some (PStr n)"
    and "map_of (CALLABLE_FUNCTION_TABLE env) n = None"
  shows "call_function env self (PDict fc) world s
           = (Inr (PDict [(''error'',
                 PStr ([CHR 0x22] @ n @ [CHR 0x22] @ '' is not a callable function.''))]), s)"
  using assms by (simp add: call_function_def subscript_def fmt_def)

lemma call_function_known:
  assumes "map_of fc ''name'' = Some (PStr n)"
    and "map_of (CALLABLE_FUNCTION_TABLE env) n = Some fi"
  shows "call_function env self (PDict fc) world s
           = (case call_function_try env self (PStr n) fi (PDict fc) world s of
                (Inl e, s') \<Rightarrow> report_error e s'
              | (Inr r, s') \<Rightarrow> (Inr r, s'))"
  using assms by (simp add: call_function_def subscript_def)

lemma report_error_cases:
  "report_error (PyExn cls msg) s
     = (Inr (PDict [(''error'', PStr msg)]),
        print_in_color [PStr ''        error: '', PStr msg] ''red'' s)"
  "report_error (PyBaseExn cls msg) s = (Inl (PyBaseExn cls msg), s)"
  by (simp_all add: report_error_def)


lemma try_no_arguments_key:
  assumes "getattr s self ''name'' = Inr nm" and "map_of fc ''arguments'' = None"
  shows "call_function_try env self (PStr n) fi (PDict fc) world s
           = (Inl (KeyError ''arguments''), announce_call nm n s)"
  using assms by (simp add: call_function_try_def subscript_dict announce_call_def Let_def)

lemma try_rejected_text:
  assumes "getattr s self ''name'' = Inr nm" and "map_of fc ''arguments'' = Some (PStr t)"
    and "json_loads env t = Inl e"
  shows "call_function_try env self (PStr n) fi (PDict fc) world s
           = (Inl e, announce_call nm n s)"
  using assms by (simp add: call_function_try_def subscript_dict announce_call_def Let_def)

lemma inject_dict:
  "inject flag key v t (PDict d) = Inr (PDict (if flag then dict_set d key v else d))"
  by (simp add: inject_def)

lemma try_none_arguments:
  assumes "getattr s self ''name'' = Inr nm" and "map_of fc ''arguments'' = Some PNone"
  shows "call_function_try env self (PStr n) fi (PDict fc) world s
           = (case fi_function fi (injected fi world self nm)
                     (announce_arguments (PDict []) (announce_call nm n s)) of
                (Inl e, s3) \<Rightarrow> (Inl e, s3)
              | (Inr r, s3) \<Rightarrow>
                  if r = PNone then (Inr PNone, s3)
                  else (Inr r, print_in_color [PStr ''        response: '', r] ''blue'' s3))"
  using assms
  by (simp add: call_function_try_def subscript_dict announce_call_def announce_arguments_def
      Let_def inject_dict injected_def with_injected_def)







subsection \<open>Concrete environments\<close>

definition plain_reply :: "chunk list" where
  "plain_reply =
     [[\<lparr>d_role = Some ''assistant'', d_function_call = None, d_content = Some (Some ''Hi.'')\<rparr>]]"

definition call_reply :: "chunk list" where
  "call_reply =
     [[\<lparr>d_role = Some ''assistant'',
        d_function_call = Some [(''name'', ''foo''), (''arguments'', '''')],
        d_content = Some None\<rparr>],
      [\<lparr>d_role = None, d_function_call = Some [(''arguments'', ''{}'')], d_content = None\<rparr>]]"

text \<open>
  An environment with an empty registry whose service answers every request with a
  plain reply, and the same with a service that answers with a call of \<open>foo\<close>.
\<close>

definition bare_env :: env where
  "bare_env =
     \<lparr>re_match = (\<lambda>pattern role. Inr True),
      json_loads = (\<lambda>t. if t = ''{}'' then Inr (PDict [])
                          else Inl (PyExn ''JSONDecodeError''
                                 ''Expecting value: line 1 column 1 (char 0)'')),
      json_dumps = (\<lambda>v. case v of PStr t \<Rightarrow> [CHR 0x22] @ t @ [CHR 0x22] | _ \<Rightarrow> ''null''),
      str_of = (\<lambda>v. ''None''),
      service = (\<lambda>log. Inr plain_reply),
      CALLABLE_FUNCTION_TABLE = []\<rparr>"

definition calling_env :: env where
  "calling_env = bare_env\<lparr>service := (\<lambda>log. Inr call_reply)\<rparr>"

definition foo_call :: "(string \<times> pyval) list" where
  "foo_call = [(''name'', PStr ''foo''), (''arguments'', PStr ''{}'')]"

definition foo_message :: "(string \<times> pyval) list" where
  "foo_message =
     [(''role'', PStr ''assistant''), (''content'', PStr ''''),
      (''function_call'', PDict foo_call)]"

definition bot_request :: "(pyexn + pyval) \<times> pystate" where
  "bot_request = think_request calling_env (fst bot_agent) (snd bot_agent)"

lemma calling_env_fields:
  "CALLABLE_FUNCTION_TABLE calling_env = [] \<and> service calling_env = (\<lambda>log. Inr call_reply)"
  by (simp add: calling_env_def bare_env_def)

lemma stream_call_reply:
  "stream_message (stream_loop p call_reply) = foo_message
   \<and> stream_out p (stream_loop p call_reply) = []"
  by (simp add: stream_message_def stream_out_def stream_loop_def call_reply_def stream_delta_def
      acc0_def fc_item_def foo_message_def foo_call_def Let_def)

lemma stream_chat_completion_heap:
  "heap (snd (stream_chat_completion env engine messages p fs kw s)) = heap s"
  by (simp add: stream_chat_completion_def Let_def split: sum.splits)

lemma think_request_heap:
  "heap (snd (think_request env self s)) = heap s"
  by (simp add: think_request_def Let_def stream_chat_completion_heap print_in_color_def
      split: sum.splits)

lemma bot_state:
  "fst bot_agent = PRef 3
   \<and> getattr (snd bot_agent) (PRef 3) ''name'' = Inr (PStr ''Bot'')
   \<and> getattr (snd bot_agent) (PRef 3) ''engine'' = Inr (PStr ''gpt-4'')
   \<and> getattr (snd bot_agent) (PRef 3) ''memory'' = Inr (PRef 4)
   \<and> getattr (snd bot_agent) (PRef 3) ''ignore_none_function_messages'' = Inr (PBool False)
   \<and> getattr (snd bot_agent) (PRef 3) ''function_call_repeats'' = Inr (PInt 1)
   \<and> getattr (snd bot_agent) (PRef 3) ''engine_args'' = Inr (PRef 1)
   \<and> heap (snd bot_agent) 1 = Some (ODict [(PStr ''temperature'', PFloat 1.0)])
   \<and> heap (snd bot_agent) 4
       = Some (OList [PDict [(''role'', PStr ''system''),
                             (''content'', PStr ''You are a helpful bot.'')]])"
  using bot_agent_eq
  by (simp add: getattr_def agent_dict_def class_namespace_def Agent_class_def
      Agent_engine_args_addr_def)
     (simp add: bot_agent_def Agent_new_eq module_state_def Agent_engine_args_addr_def
      Agent_memory_addr_def World_agents_addr_def)

lemma bot_engine_kwargs:
  "heap t = heap (snd bot_agent) \<Longrightarrow>
   engine_kwargs t (PRef 3) [''engine'', ''messages'', ''print_output'']
     = Inr [(PStr ''temperature'', PFloat 1.0)]"
  using bot_state getattr_heap [of t "snd bot_agent" "PRef 3" "''engine_args''"]
  by (simp add: engine_kwargs_def)

lemma bot_request_eq:
  "fst bot_request = Inr (PDict foo_message) \<and> heap (snd bot_request) = heap (snd bot_agent)"
proof -
  let ?s1 = "print_in_color [PStr ''Bot'', PStr '' >> ''] ''yellow'' (snd bot_agent)"
  have h: "heap ?s1 = heap (snd bot_agent)"
    by (simp add: print_in_color_def)
  note g = getattr_heap [OF h, of "PRef 3"]
  have "think_request calling_env (PRef 3) (snd bot_agent)
          = stream_chat_completion calling_env (PStr ''gpt-4'') (PRef 4) True None
              [(PStr ''temperature'', PFloat 1.0)] ?s1"
    using bot_state bot_engine_kwargs [OF h]
    by (simp add: think_request_def Let_def g callable_function_descriptions_def
        calling_env_fields truthy_def)
  then have "fst bot_request = Inr (PDict foo_message)"
    using bot_state
    by (simp add: bot_request_def stream_chat_completion_def Let_def calling_env_fields
        stream_call_reply)
  moreover have "heap (snd bot_request) = heap (snd bot_agent)"
    by (simp add: bot_request_def think_request_heap)
  ultimately show ?thesis by simp
qed


definition foo_error :: pyval where
  "foo_error =
     PDict [(''error'', PStr ([CHR 0x22] @ ''foo'' @ [CHR 0x22] @ '' is not a callable function.''))]"

lemma foo_unknown:
  "call_function calling_env self (PDict foo_call) world t = (Inr foo_error, t)"
proof -
  have "map_of foo_call ''name'' = Some (PStr ''foo'')"
    by (simp add: foo_call_def)
  moreover have "map_of (CALLABLE_FUNCTION_TABLE calling_env) ''foo'' = None"
    by (simp add: calling_env_fields)
  ultimately show ?thesis
    unfolding foo_error_def by (rule call_function_unknown)
qed























subsection \<open>The arguments of a dispatched call\<close>

text \<open>What the dispatcher makes of the outcome of the function.\<close>

definition outcome :: "(pyexn + pyval) \<times> pystate \<Rightarrow> (pyexn + pyval) \<times> pystate" where
  "outcome res =
     (case res of
        (Inl e, s) \<Rightarrow> report_error e s
      | (Inr r, s) \<Rightarrow>
          if r = PNone then (Inr PNone, s)
          else (Inr r, print_in_color [PStr ''        response: '', r] ''blue'' s))"

text \<open>
  Claim C4, as the code has it. Take a request whose name \<open>n\<close> is registered, dispatched
  for an agent that has a name. When the value of \<open>arguments\<close> is \<open>None\<close>, the
  dispatcher takes the empty dict, injects the space, the agent and the agent's name as
  the function's flags say, and invokes the function. When the key \<open>arguments\<close> is
  absent, or its text is one \<open>json.loads\<close> rejects (the empty text is one), the
  function is not invoked: the \<open>KeyError\<close> or the parser's error is caught and the
  dispatcher returns \<open>{'error': str(e)}\<close>.
\<close>

theorem dispatcher_arguments:
  assumes "map_of fc ''name'' = Some (PStr n)"
    and "map_of (CALLABLE_FUNCTION_TABLE env) n = Some fi"
    and "getattr s self ''name'' = Inr nm"
  shows "call_function env self (PDict fc) world s =
     (case map_of fc ''arguments'' of
        None \<Rightarrow> report_error (KeyError ''arguments'') (announce_call nm n s)
      | Some raw \<Rightarrow>
          if raw = PNone
          then outcome (fi_function fi (injected fi world self nm)
                          (announce_arguments (PDict []) (announce_call nm n s)))
          else (case raw of
                  PStr t \<Rightarrow>
                    (case json_loads env t of
                       Inl e \<Rightarrow> report_error e (announce_call nm n s)
                     | Inr args \<Rightarrow> call_function env self (PDict fc) world s)
                | _ \<Rightarrow> call_function env self (PDict fc) world s))"
proof (cases "map_of fc ''arguments''")
  case None
  with call_function_known [OF assms(1,2), of self world s]
    try_no_arguments_key [OF assms(3) None, of env n fi world]
  show ?thesis by simp
next
  case (Some raw)
  show ?thesis
  proof (cases "raw = PNone")
    case True
    with Some have a: "map_of fc ''arguments'' = Some PNone" by simp
    obtain x s3 where body: "fi_function fi (injected fi world self nm)
        (announce_arguments (PDict []) (announce_call nm n s)) = (x, s3)"
      by (cases "fi_function fi (injected fi world self nm)
        (announce_arguments (PDict []) (announce_call nm n s))")
    show ?thesis
      using call_function_known [OF assms(1,2), of self world s]
        try_none_arguments [OF assms(3) a, of env n fi world]
      by (cases x) (simp_all add: a body outcome_def)
  next
    case False
    show ?thesis
    proof (cases raw)
      case (PStr t)
      show ?thesis
      proof (cases "json_loads env t")
        case (Inl e)
        from Some PStr have a: "map_of fc ''arguments'' = Some (PStr t)" by simp
        show ?thesis
          using call_function_known [OF assms(1,2), of self world s]
            try_rejected_text [OF assms(3) a Inl, of n fi world]
          by (simp add: a Inl)
      next
        case (Inr args)
        with Some PStr show ?thesis by simp
      qed
    qed (use Some False in simp_all)
  qed
qed

definition ping_info :: "body function_info" where
  "ping_info =
     \<lparr>fi_sig = \<lparr>sig_name = ''ping'', sig_description = ''Answer pong.'',
                sig_properties = [], sig_required = []\<rparr>,
      fi_function = (\<lambda>kwargs s. (Inr (PStr ''pong''), s)),
      has_world_param = False,
      has_agent_param = False,
      has_agent_name_param = True,
      role_name_filter = ''.*''\<rparr>"

definition ping_env :: env where
  "ping_env = bare_env\<lparr>CALLABLE_FUNCTION_TABLE := [(''ping'', ping_info)]\<rparr>"

lemma ping_env_fields:
  "map_of (CALLABLE_FUNCTION_TABLE ping_env) ''ping'' = Some ping_info
   \<and> json_loads ping_env ''''
       = Inl (PyExn ''JSONDecodeError'' ''Expecting value: line 1 column 1 (char 0)'')"
  by (simp add: ping_env_def bare_env_def)

lemma ping_calls:
  "fst (call_function ping_env (PRef 3) (PDict [(''name'', PStr ''ping'')]) PNone
          (snd bot_agent))
     = Inr (PDict [(''error'', PStr (quoted ''arguments''))])
   \<and> fst (call_function ping_env (PRef 3)
            (PDict [(''name'', PStr ''ping''), (''arguments'', PStr '''')]) PNone (snd bot_agent))
     = Inr (PDict [(''error'', PStr ''Expecting value: line 1 column 1 (char 0)'')])
   \<and> fst (call_function ping_env (PRef 3)
            (PDict [(''name'', PStr ''ping''), (''arguments'', PNone)]) PNone (snd bot_agent))
     = Inr (PStr ''pong'')"
proof -
  note f = ping_env_fields
  have nm: "getattr (snd bot_agent) (PRef 3) ''name'' = Inr (PStr ''Bot'')"
    using bot_state by simp
  have k: "\<And>fc. map_of fc ''name'' = Some (PStr ''ping'') \<Longrightarrow>
      call_function ping_env (PRef 3) (PDict fc) PNone (snd bot_agent)
       = (case call_function_try ping_env (PRef 3) (PStr ''ping'') ping_info (PDict fc) PNone
                 (snd bot_agent) of
            (Inl e, s') \<Rightarrow> report_error e s'
          | (Inr r, s') \<Rightarrow> (Inr r, s'))"
    using f by (simp add: call_function_known)
  have 1: "fst (call_function ping_env (PRef 3) (PDict [(''name'', PStr ''ping'')]) PNone
          (snd bot_agent)) = Inr (PDict [(''error'', PStr (quoted ''arguments''))])"
    using try_no_arguments_key [OF nm, of "[(''name'', PStr ''ping'')]" ping_env "''ping''"
        ping_info PNone]
    by (simp add: k KeyError_def report_error_cases)
  have 2: "fst (call_function ping_env (PRef 3)
            (PDict [(''name'', PStr ''ping''), (''arguments'', PStr '''')]) PNone (snd bot_agent))
     = Inr (PDict [(''error'', PStr ''Expecting value: line 1 column 1 (char 0)'')])"
    using try_rejected_text [OF nm, of "[(''name'', PStr ''ping''), (''arguments'', PStr '''')]"
        "''''" ping_env _ "''ping''" ping_info PNone] f
    by (simp add: k report_error_cases)
  have 3: "fst (call_function ping_env (PRef 3)
            (PDict [(''name'', PStr ''ping''), (''arguments'', PNone)]) PNone (snd bot_agent))
     = Inr (PStr ''pong'')"
    using try_none_arguments [OF nm, of "[(''name'', PStr ''ping''), (''arguments'', PNone)]"
        ping_env "''ping''" ping_info PNone]
    by (simp add: k) (simp add: ping_info_def)
  from 1 2 3 show ?thesis by simp
qed

text \<open>
  Claim C4 as stated fails. The registered function \<open>ping\<close> answers \<open>pong\<close> when it is
  invoked, as the request with \<open>arguments\<close> \<open>None\<close> shows. The request without the key
  \<open>arguments\<close> and the request with the empty text both return an error result
  instead: the function is not invoked.
\<close>

theorem dispatcher_arguments_counterexample:
  "fst (call_function ping_env (fst bot_agent) (PDict [(''name'', PStr ''ping'')]) PNone
          (snd bot_agent))
     = Inr (PDict [(''error'', PStr (quoted ''arguments''))])
   \<and> fst (call_function ping_env (fst bot_agent)
            (PDict [(''name'', PStr ''ping''), (''arguments'', PStr '''')]) PNone (snd bot_agent))
     = Inr (PDict [(''error'', PStr ''Expecting value: line 1 column 1 (char 0)'')])
   \<and> fst (call_function ping_env (fst bot_agent)
            (PDict [(''name'', PStr ''ping''), (''arguments'', PNone)]) PNone (snd bot_agent))
     = Inr (PStr ''pong'')"
  using ping_calls bot_state by simp

theorem dispatcher_arguments_witness:
  "map_of [(''name'', PStr ''ping''), (''arguments'', PNone)] ''name'' = Some (PStr ''ping'')
   \<and> map_of (CALLABLE_FUNCTION_TABLE ping_env) ''ping'' = Some ping_info
   \<and> getattr (snd bot_agent) (PRef 3) ''name'' = Inr (PStr ''Bot'')
   \<and> call_function ping_env (PRef 3) (PDict [(''name'', PStr ''ping''), (''arguments'', PNone)])
        PNone (snd bot_agent)
      = outcome (fi_function ping_info (injected ping_info PNone (PRef 3) (PStr ''Bot''))
                   (announce_arguments (PDict []) (announce_call (PStr ''Bot'') ''ping''
                      (snd bot_agent))))
   \<and> injected ping_info PNone (PRef 3) (PStr ''Bot'') = [(''agent_name'', PStr ''Bot'')]
   \<and> call_function ping_env (PRef 3) (PDict [(''name'', PStr ''ping'')]) PNone (snd bot_agent)
      = report_error (KeyError ''arguments'') (announce_call (PStr ''Bot'') ''ping''
          (snd bot_agent))"
proof -
  have n1: "map_of [(''name'', PStr ''ping''), (''arguments'', PNone)] ''name''
              = Some (PStr ''ping'')"
    and n2: "map_of [(''name'', PStr ''ping'')] ''name'' = Some (PStr ''ping'')"
    by simp_all
  have t: "map_of (CALLABLE_FUNCTION_TABLE ping_env) ''ping'' = Some ping_info"
    using ping_env_fields by simp
  have nm: "getattr (snd bot_agent) (PRef 3) ''name'' = Inr (PStr ''Bot'')"
    using bot_state by simp
  have i: "injected ping_info PNone (PRef 3) (PStr ''Bot'') = [(''agent_name'', PStr ''Bot'')]"
    by (simp add: injected_def ping_info_def AGENT_NAME_PARAM_NAME_def)
  from dispatcher_arguments [OF n1 t nm, of PNone]
  have a: "call_function ping_env (PRef 3)
        (PDict [(''name'', PStr ''ping''), (''arguments'', PNone)]) PNone (snd bot_agent)
      = outcome (fi_function ping_info (injected ping_info PNone (PRef 3) (PStr ''Bot''))
                   (announce_arguments (PDict []) (announce_call (PStr ''Bot'') ''ping''
                      (snd bot_agent))))"
    by simp
  from dispatcher_arguments [OF n2 t nm, of PNone]
  have b: "call_function ping_env (PRef 3) (PDict [(''name'', PStr ''ping'')]) PNone
        (snd bot_agent)
      = report_error (KeyError ''arguments'') (announce_call (PStr ''Bot'') ''ping''
          (snd bot_agent))"
    by simp
  show ?thesis
    by (intro conjI) (fact n1 t nm a i b)+
qed

section \<open>The bot-persona loader (function.py)\<close>

text \<open>
  Binding the arguments of a call to the parameters of a function without \<open>*args\<close> and
  \<open>**kwargs\<close>: the positional arguments fill the parameters from the left, the
  keyword arguments by name, the defaults fill what is left, and a parameter left
  without a value is an error. The exception is a \<open>TypeError\<close>; its text names the
  function and the argument.
\<close>

definition bind_args ::
  "string \<Rightarrow> parameter list \<Rightarrow> pyval list \<Rightarrow> (string \<times> pyval) list
     \<Rightarrow> pyexn + (string \<times> pyval) list" where
  "bind_args fname params args kwargs =
     (let names = map p_name params;
          positional = zip names args
      in case find (\<lambda>kv. fst kv \<notin> set names) kwargs of
           Some kv \<Rightarrow>
             Inl (TypeError (fname @ ''() got an unexpected keyword argument '' @ quoted (fst kv)))
         | None \<Rightarrow>
        (case find (\<lambda>kv. fst kv \<in> set (map fst positional)) kwargs of
           Some kv \<Rightarrow>
             Inl (TypeError (fname @ ''() got multiple values for argument '' @ quoted (fst kv)))
         | None \<Rightarrow>
             if length args > length params
             then Inl (TypeError (fname @ ''() takes too many positional arguments''))
             else (let given = positional @ kwargs;
                       missing = filter (\<lambda>p. map_of given (p_name p) = None \<and> p_default p = None)
                                   params
                   in case missing of
                        [] \<Rightarrow>
                          Inr (map (\<lambda>p. (p_name p,
                                 case map_of given (p_name p) of
                                   Some v \<Rightarrow> v
                                 | None \<Rightarrow> (case p_default p of Some d \<Rightarrow> d | None \<Rightarrow> PNone)))
                               params)
                      | [p] \<Rightarrow>
                          Inl (TypeError (fname @ ''() missing 1 required positional argument: '' @
                                          quoted (p_name p)))
                      | p # ps \<Rightarrow>
                          Inl (TypeError (fname @ ''() missing required positional arguments'')))))"

text \<open>The parameters of \<open>Agent.__init__\<close> after \<open>self\<close>, as the source declares them.\<close>

definition Agent_init_parameters :: "parameter list" where
  "Agent_init_parameters =
     [\<lparr>p_name = ''name'', p_annotation = AStr, p_default = None\<rparr>,
      \<lparr>p_name = ''prompt'', p_annotation = AStr, p_default = None\<rparr>,
      \<lparr>p_name = ''engine'', p_annotation = AStr, p_default = Some (PStr ''gpt-3.5-turbo-16k'')\<rparr>,
      \<lparr>p_name = ''role'', p_annotation = AStr, p_default = Some (PStr ''agent'')\<rparr>,
      \<lparr>p_name = ''function_call_repeats'', p_annotation = AInt,
        p_default = Some DEFAULT_FUNCTION_CALL_REPEATS\<rparr>,
      \<lparr>p_name = ''ignore_none_function_messages'', p_annotation = ABool,
        p_default = Some DEFAULT_IGNORE_NONE_FUNCTION_MESSAGES\<rparr>]"

text \<open>\<open>Agent(*args, **kwargs)\<close>.\<close>

definition Agent_call ::
  "pyval list \<Rightarrow> (string \<times> pyval) list \<Rightarrow> pystate \<Rightarrow> (pyexn + pyval) \<times> pystate" where
  "Agent_call args kwargs s =
     (case bind_args ''Agent.__init__'' Agent_init_parameters args kwargs of
        Inl e \<Rightarrow> (Inl e, s)
      | Inr bound \<Rightarrow>
          (let arg = (\<lambda>k. case map_of bound k of Some v \<Rightarrow> v | None \<Rightarrow> PNone);
               (agent, s') = Agent_new (arg ''name'') (arg ''prompt'') (arg ''engine'') (arg ''role'')
                               (arg ''function_call_repeats'')
                               (arg ''ignore_none_function_messages'') s
           in (Inr agent, s')))"

text \<open>
  Calling what a method lookup gave that is not a method of the class: an attribute
  holds a value of the model, and no such value is callable.
\<close>

definition call_value ::
  "pyval \<Rightarrow> pyval list \<Rightarrow> (string \<times> pyval) list \<Rightarrow> pystate \<Rightarrow> (pyexn + pyval) \<times> pystate" where
  "call_value f args kwargs s =
     (Inl (TypeError (quoted (type_name s f) @ '' object is not callable'')), s)"

text \<open>
  What \<open>_load_bot\<close> takes from outside the sources: reading and parsing the persona's
  YAML file (\<open>yaml.safe_load(open(...))\<close>) and \<open>parse_experience_data\<close> of the absent
  \<open>util\<close> module.
\<close>

record loader =
  load_yaml :: "string \<Rightarrow> pyexn + pyval"
  parse_experience_data :: "pyval \<Rightarrow> pyexn + pyval"

text \<open>
  \<open>_load_bot(name, engine)\<close>. The result is the pair \<open>(agent, template_user)\<close>. The
  method \<open>receive_messages\<close> is looked up on the new agent like any attribute.
\<close>

definition load_bot ::
  "loader \<Rightarrow> string \<Rightarrow> pyval \<Rightarrow> pystate \<Rightarrow> (pyexn + pyval \<times> pyval) \<times> pystate" where
  "load_bot ld name engine s =
     (case map_of (BOTS s) name of
        Some cached \<Rightarrow> (Inr cached, s)
      | None \<Rightarrow>
     (case load_yaml ld name of
        Inl e \<Rightarrow> (Inl e, s)
      | Inr raw_exp_data \<Rightarrow>
     (case parse_experience_data ld raw_exp_data of
        Inl e \<Rightarrow> (Inl e, s)
      | Inr exp_data \<Rightarrow>
     (case Agent_call [PStr (''bots.'' @ name)]
             [(''engine'', engine), (''function_call_repeats'', PInt 1),
              (''ignore_none_function_messages'', PBool False)] s of
        (Inl e, s1) \<Rightarrow> (Inl e, s1)
      | (Inr new_agent, s1) \<Rightarrow>
     (case getattr s1 new_agent ''receive_messages'' of
        Inl e \<Rightarrow> (Inl e, s1)
      | Inr receive_messages \<Rightarrow>
     (case call_value receive_messages [exp_data] [(''print_output'', PBool False)] s1 of
        (Inl e, s2) \<Rightarrow> (Inl e, s2)
      | (Inr agent, s2) \<Rightarrow>
     (case subscript s2 raw_exp_data ''template'' of
        Inl e \<Rightarrow> (Inl e, s2)
      | Inr template \<Rightarrow>
     (case subscript s2 template ''user'' of
        Inl e \<Rightarrow> (Inl e, s2)
      | Inr template_user \<Rightarrow>
          (Inr (agent, template_user),
           s2\<lparr>BOTS := dict_set (BOTS s2) name (agent, template_user)\<rparr>)))))))))"

definition rephrase_yaml :: pyval where
  "rephrase_yaml =
     PDict [(''experience'', PList []),
            (''template'', PDict [(''user'', PStr ''Rephrase: {input}'')])]"

definition demo_loader :: loader where
  "demo_loader =
     \<lparr>load_yaml = (\<lambda>name. Inr rephrase_yaml), parse_experience_data = (\<lambda>raw. Inr (PList []))\<rparr>"

text \<open>A state in which the persona \<open>rephrase\<close> is already in \<open>BOTS\<close>.\<close>

definition cached_state :: pystate where
  "cached_state = (snd bot_agent)\<lparr>BOTS := [(''rephrase'', (PRef 3, PStr ''Rephrase: {input}''))]\<rparr>"

subsection \<open>Facts about the loader\<close>

lemma Agent_call_without_prompt:
  "Agent_call [name] [(''engine'', engine), (''function_call_repeats'', f),
       (''ignore_none_function_messages'', i)] s
     = (Inl (TypeError (''Agent.__init__() missing 1 required positional argument: '' @
                        quoted ''prompt'')), s)"
  by (simp add: Agent_call_def bind_args_def Agent_init_parameters_def Let_def)

text \<open>The half of claim C9 that holds: a cached persona is returned as it is.\<close>

lemma load_bot_cached:
  "map_of (BOTS s) name = Some cached \<Longrightarrow> load_bot ld name engine s = (Inr cached, s)"
  by (simp add: load_bot_def)

text \<open>For a persona that is not cached the loader never returns and never caches.\<close>

lemma load_bot_uncached:
  assumes "map_of (BOTS s) name = None"
  shows "\<exists>e. fst (load_bot ld name engine s) = Inl e"
    and "snd (load_bot ld name engine s) = s"
  using assms
  by (auto simp: load_bot_def Agent_call_without_prompt split: sum.splits)

text \<open>
  Claim C9, at a concrete call. With an empty cache and a well-formed definition file,
  \<open>_load_bot('rephrase')\<close> raises \<open>TypeError\<close>: the call \<open>Agent('bots.rephrase',
  engine=..., function_call_repeats=1, ignore_none_function_messages=False)\<close> gives no
  \<open>prompt\<close>, which \<open>Agent.__init__\<close> requires; nothing is cached. An agent of
  agent.py has no attribute \<open>receive_messages\<close> either. With the persona in the
  cache, the cached pair is returned.
\<close>

theorem load_bot_uncached_raises:
  "fst (load_bot demo_loader ''rephrase'' (PStr ''gpt-3.5-turbo'') module_state)
     = Inl (TypeError (''Agent.__init__() missing 1 required positional argument: '' @
                       quoted ''prompt''))
   \<and> BOTS (snd (load_bot demo_loader ''rephrase'' (PStr ''gpt-3.5-turbo'') module_state)) = []
   \<and> getattr (snd bot_agent) (fst bot_agent) ''receive_messages''
       = Inl (AttributeError (snd bot_agent) (fst bot_agent) ''receive_messages'')
   \<and> load_bot demo_loader ''rephrase'' (PStr ''gpt-3.5-turbo'') cached_state
       = (Inr (PRef 3, PStr ''Rephrase: {input}''), cached_state)"
proof -
  have 1: "load_bot demo_loader ''rephrase'' (PStr ''gpt-3.5-turbo'') module_state
     = (Inl (TypeError (''Agent.__init__() missing 1 required positional argument: '' @
                       quoted ''prompt'')), module_state)"
    by (simp add: load_bot_def demo_loader_def Agent_call_without_prompt module_state_def)
  have 2: "BOTS module_state = []"
    by (simp add: module_state_def)
  have 3: "getattr (snd bot_agent) (fst bot_agent) ''receive_messages''
       = Inl (AttributeError (snd bot_agent) (fst bot_agent) ''receive_messages'')"
    using bot_agent_eq
    by (simp add: getattr_def agent_dict_def class_namespace_def Agent_class_def)
  have 4: "load_bot demo_loader ''rephrase'' (PStr ''gpt-3.5-turbo'') cached_state
       = (Inr (PRef 3, PStr ''Rephrase: {input}''), cached_state)"
    by (rule load_bot_cached) (simp add: cached_state_def)
  from 1 2 3 4 show ?thesis by simp
qed


section \<open>The demonstration application (simple.py)\<close>

subsection \<open>Method calls on the agents of agent.py\<close>

text \<open>
  simple.py calls methods on its agent and on what those calls return. The class
  \<open>Agent\<close> of agent.py defines \<open>print_memory\<close>, \<open>_callable_function_descriptions\<close>,
  \<open>_call_function\<close>, \<open>receive_message\<close>, \<open>response_to_message\<close> and
  \<open>think_and_act\<close>, and no instance attribute of that name is ever assigned. A call
  \<open>obj.name(...)\<close> for any other name (\<open>derive_avatar\<close>, \<open>last_message\<close> and
  \<open>print_full_memory\<close> are such names) looks the attribute up like any other and calls
  what the lookup gave; a call of \<open>receive_message\<close> or \<open>think_and_act\<close> runs the
  method when the object is an \<open>Agent\<close> and is such an attribute call otherwise.
\<close>

definition is_Agent :: "pystate \<Rightarrow> pyval \<Rightarrow> bool" where
  "is_Agent s obj =
     (case obj of
        PRef a \<Rightarrow> (case heap s a of Some (OInst cls d) \<Rightarrow> cls = ''Agent'' | _ \<Rightarrow> False)
      | _ \<Rightarrow> False)"

definition call_attribute ::
  "pystate \<Rightarrow> pyval \<Rightarrow> string \<Rightarrow> pyval list \<Rightarrow> (string \<times> pyval) list
     \<Rightarrow> (pyexn + pyval) \<times> pystate" where
  "call_attribute s obj name args kwargs =
     (case getattr s obj name of
        Inl e \<Rightarrow> (Inl e, s)
      | Inr f \<Rightarrow> call_value f args kwargs s)"

subsection \<open>Database.review\_info\<close>




record database =
  info_list :: "string list"
  num_confirms :: nat







definition qs :: "string list" where
  "qs = [''Do you have sufficient infomation to answer the user's question? Answer yes or no.'',
         ''Do current info suffice to answer the user's question? Answer yes or no.'',
         ''Do you have enough info to answer the user's question? Answer yes or no.'']"







subsection \<open>Facts about review\_info\<close>








subsection \<open>The module-level code: the agent and the console loop\<close>

text \<open>\<open>input('>> ')\<close> writes the prompt; at the end of the input it raises \<open>EOFError\<close>.\<close>

definition prompted :: "pystate \<Rightarrow> pystate" where
  "prompted s = s\<lparr>out := out s @ [Prompt ''>> '']\<rparr>"

definition EOFError :: pyexn where
  "EOFError = PyExn ''EOFError'' ''EOF when reading a line''"

text \<open>
  The loop \<open>while True\<close> at the end of simple.py, over the lines the console still has
  to give, for the agent it is run with. It ends with \<open>break\<close> (the value \<open>None\<close>) or
  with an exception. \<open>print_full_memory\<close> is not a method of the class \<open>Agent\<close> of
  agent.py, so the call is an attribute call.
\<close>

fun read_loop :: "env \<Rightarrow> pyval \<Rightarrow> string list \<Rightarrow> pystate \<Rightarrow> (pyexn + pyval) \<times> pystate" where
  "read_loop env agent [] s = (Inl EOFError, prompted s)"
| "read_loop env agent (user_message # rest) s =
     (if user_message \<in> set [''exit'', ''q'', ''quit()'', ''quit''] then (Inr PNone, prompted s)
      else if user_message = ''::mem''
      then (case call_attribute (prompted s) agent ''print_full_memory'' [] [] of
              (Inl e, s1) \<Rightarrow> (Inl e, s1)
            | (Inr r, s1) \<Rightarrow> read_loop env agent rest s1)
      else (case (if strip user_message \<noteq> ''''
                  then (if is_Agent (prompted s) agent
                        then receive_message agent
                               (PDict [(''role'', PStr ''user''), (''content'', PStr user_message)])
                               True (prompted s)
                        else call_attribute (prompted s) agent ''receive_message''
                               [PDict [(''role'', PStr ''user''),
                                       (''content'', PStr user_message)]] [])
                  else (Inr PNone, prompted s)) of
              (Inl e, s1) \<Rightarrow> (Inl e, s1)
            | (Inr r, s1) \<Rightarrow>
                (case (if is_Agent s1 agent then think_and_act env agent PNone s1
                       else call_attribute s1 agent ''think_and_act'' [] []) of
                   (Inl e, s2) \<Rightarrow> (Inl e, s2)
                 | (Inr r2, s2) \<Rightarrow> read_loop env agent rest s2)))"

text \<open>
  The statements before the loop: the agent is built by
  \<^verbatim>\<open>Agent('Bot', prompt=..., engine='gpt-4', interactive_objects=[info_database],
      function_call_repeats=1, ignore_none_function_messages=False)\<close>
  and the loop is run with it. \<open>info_database\<close>, the instance of \<open>Database\<close> built
  just before, is given.
\<close>

definition simple_prompt :: string where
  "simple_prompt =
     ''You are a helpful bot. You can use functions to access the knowledge from a database. '' @
     ''Answer questions using only the knowledge from the database.''"

definition simple_main ::
  "env \<Rightarrow> pyval \<Rightarrow> string list \<Rightarrow> pystate \<Rightarrow> (pyexn + pyval) \<times> pystate" where
  "simple_main env info_database console s =
     (case Agent_call [PStr ''Bot'']
             [(''prompt'', PStr simple_prompt),
              (''engine'', PStr ''gpt-4''),
              (''interactive_objects'', PList [info_database]),
              (''function_call_repeats'', PInt 1),
              (''ignore_none_function_messages'', PBool False)] s of
        (Inl e, s1) \<Rightarrow> (Inl e, s1)
      | (Inr agent, s1) \<Rightarrow> read_loop env agent console s1)"

subsection \<open>Facts about the loop\<close>

text \<open>
  As simple.py stands, the constructor call raises: \<open>Agent.__init__\<close> of agent.py has
  no parameter \<open>interactive_objects\<close>. The facts below are about the loop itself, for
  any agent it is run with.
\<close>

lemma simple_main_raises:
  "simple_main env info_database console s
     = (Inl (TypeError (''Agent.__init__() got an unexpected keyword argument '' @
                        quoted ''interactive_objects'')), s)"
  by (simp add: simple_main_def Agent_call_def bind_args_def Agent_init_parameters_def Let_def)






lemma is_Agent_out [simp]:
  "is_Agent (prompted s) obj = is_Agent s obj"
  by (cases obj) (simp_all add: is_Agent_def prompted_def)












end
